theory Spec2Isabelle
  imports Complex_Main "HOL-Library.Word"
begin

section \<open>Uptime monitor: data model\<close>

text \<open>
  The Go program keeps a registry of monitored websites (package \<open>monitor\<close>), probes
  them, aggregates the results (\<open>main\<close>), throttles notifications (package
  \<open>notification\<close>), stores history as JSON files (package \<open>storage\<close>) and exposes a
  REST API (package \<open>controllers\<close>).

  Conventions of the embedding:
  \<^item> a \<open>time.Time\<close> is an \<open>int\<close>: nanoseconds since the Unix epoch; a
    \<open>time.Duration\<close> is an \<open>int\<close> of nanoseconds in the range of \<open>int64\<close>;
  \<^item> Go's \<open>int\<close> fields are \<open>int\<close>: the code only compares and stores them;
  \<^item> a \<open>[]string\<close> is a \<open>string list\<close>; the nil slice and the empty slice are both \<open>[]\<close>;
  \<^item> a Go \<open>error\<close> is a \<open>go_error\<close> carrying its message, \<open>nil\<close> is \<open>None\<close>;
  \<^item> a \<open>map[string]T\<close> is a map \<open>string \<rightharpoonup> T\<close>; the registry holds pointers, and a
    write through the pointer \<open>GetWebsite\<close> returns is an update of the registry entry.
\<close>

datatype go_error = Err string

type_synonym time = int

definition zero_time :: time where
  \<comment> \<open>\<open>time.Time{}\<close>: January 1, year 1, 00:00 UTC.\<close>
  "zero_time = - 62135596800 * 1000000000"

record Website =
  ID :: string
  Name :: string
  URL :: string
  IntervalSeconds :: int
  Status :: string
  LastCheckTime :: time
  LastResponseTime :: int
  NotificationEmails :: "string list"
  SlackWebhook :: string
  Enabled :: bool

record CheckResult =
  r_WebsiteID :: string
  r_Status :: string
  r_ResponseTime :: int
  r_Timestamp :: time
  r_Error :: "go_error option"

datatype goroutine = processResults_loop | monitorWebsite_loop string

record MonitorEngine =
  websites :: "string \<rightharpoonup> Website"
  resultChan :: "CheckResult list"
  stopChan_closed :: bool
  userAgents :: "string list"
  running :: bool
  goroutines :: "goroutine set"

text \<open>
  \<open>resultChan\<close> is the content of the buffered channel, oldest first. \<open>goroutines\<close> records
  which loops the engine has started with a \<open>go\<close> statement: \<open>processResults\<close> and one
  \<open>monitorWebsite\<close> per website, named by the website's ID.
\<close>

definition NewMonitorEngine :: MonitorEngine where
  "NewMonitorEngine =
     \<lparr> websites = Map.empty,
       resultChan = [],
       stopChan_closed = False,
       userAgents =
         [''Mozilla/5.0 (Windows NT 10.0; Win64; x64) AppleWebKit/537.36 (KHTML, like Gecko) Chrome/91.0.4472.124 Safari/537.36'',
          ''Mozilla/5.0 (Macintosh; Intel Mac OS X 10_15_7) AppleWebKit/537.36 (KHTML, like Gecko) Chrome/91.0.4472.124 Safari/537.36'',
          ''Mozilla/5.0 (X11; Linux x86_64) AppleWebKit/537.36 (KHTML, like Gecko) Chrome/91.0.4472.124 Safari/537.36'',
          ''Mozilla/5.0 (Windows NT 10.0; Win64; x64; rv:89.0) Gecko/20100101 Firefox/89.0'',
          ''Mozilla/5.0 (Macintosh; Intel Mac OS X 10.15; rv:89.0) Gecko/20100101 Firefox/89.0'',
          ''Mozilla/5.0 (X11; Linux x86_64; rv:89.0) Gecko/20100101 Firefox/89.0'',
          ''Mozilla/5.0 (Macintosh; Intel Mac OS X 10_15_7) AppleWebKit/605.1.15 (KHTML, like Gecko) Version/14.1.1 Safari/605.1.15'',
          ''Mozilla/5.0 (Windows NT 10.0; Win64; x64) AppleWebKit/537.36 (KHTML, like Gecko) Edge/91.0.864.59''],
       running = False,
       goroutines = {} \<rparr>"

subsection \<open>Registry operations\<close>

definition AddWebsite :: "MonitorEngine \<Rightarrow> Website \<Rightarrow> MonitorEngine" where
  "AddWebsite me website = me\<lparr>websites := (websites me)(ID website \<mapsto> website)\<rparr>"

definition RemoveWebsite :: "MonitorEngine \<Rightarrow> string \<Rightarrow> MonitorEngine" where
  "RemoveWebsite me wid = me\<lparr>websites := (websites me)(wid := None)\<rparr>"

definition GetWebsite :: "MonitorEngine \<Rightarrow> string \<Rightarrow> Website option" where
  \<comment> \<open>\<open>(website, exists)\<close>: \<open>None\<close> is \<open>exists = false\<close>.\<close>
  "GetWebsite me wid = websites me wid"

definition GetAllWebsites :: "MonitorEngine \<Rightarrow> (string \<rightharpoonup> Website)" where
  "GetAllWebsites me = websites me"

definition UpdateWebsiteStatus ::
  "MonitorEngine \<Rightarrow> string \<Rightarrow> string \<Rightarrow> int \<Rightarrow> time \<Rightarrow> MonitorEngine" where
  \<comment> \<open>\<open>now\<close> is what \<open>time.Now()\<close> returns inside the call.\<close>
  "UpdateWebsiteStatus me wid status responseTime now =
     (case websites me wid of
        Some website \<Rightarrow>
          me\<lparr>websites := (websites me)(wid \<mapsto>
               website\<lparr>Status := status, LastResponseTime := responseTime, LastCheckTime := now\<rparr>)\<rparr>
      | None \<Rightarrow> me)"

definition Start :: "MonitorEngine \<Rightarrow> MonitorEngine" where
  "Start me =
     (if running me then me
      else me\<lparr>running := True,
              goroutines := goroutines me \<union> {processResults_loop} \<union>
                (\<lambda>website. monitorWebsite_loop (ID website)) `
                  {website \<in> ran (GetAllWebsites me). Enabled website}\<rparr>)"

definition Stop :: "MonitorEngine \<Rightarrow> MonitorEngine" where
  "Stop me =
     (if \<not> running me then me
      else me\<lparr>running := False, stopChan_closed := True\<rparr>)"

section \<open>The REST controller\<close>

record CreateWebsiteRequest =
  c_Name :: string
  c_URL :: string
  c_IntervalSeconds :: int
  c_NotificationEmails :: "string list"
  c_SlackWebhook :: string

record UpdateWebsiteRequest =
  u_Name :: string
  u_URL :: string
  u_IntervalSeconds :: int
  u_NotificationEmails :: "string list"
  u_SlackWebhook :: string
  u_Enabled :: bool

text \<open>
  A request body is either rejected by \<open>json.Unmarshal\<close> or a JSON object, of which only
  the keys of the request struct matter: a key that is absent (or \<open>null\<close>) leaves the
  struct's field at its zero value, since the struct is declared fresh before decoding.
\<close>

record create_json =
  cj_name :: "string option"
  cj_url :: "string option"
  cj_interval_seconds :: "int option"
  cj_notification_emails :: "string list option"
  cj_slack_webhook :: "string option"

record update_json =
  uj_name :: "string option"
  uj_url :: "string option"
  uj_interval_seconds :: "int option"
  uj_notification_emails :: "string list option"
  uj_slack_webhook :: "string option"
  uj_enabled :: "bool option"

datatype 'a request_body = InvalidJSON | JSONObject 'a

definition or_zero :: "'a \<Rightarrow> 'a option \<Rightarrow> 'a" where
  "or_zero z v = (case v of None \<Rightarrow> z | Some x \<Rightarrow> x)"

definition Unmarshal_CreateWebsiteRequest :: "create_json \<Rightarrow> CreateWebsiteRequest" where
  "Unmarshal_CreateWebsiteRequest j =
     \<lparr> c_Name = or_zero '''' (cj_name j),
       c_URL = or_zero '''' (cj_url j),
       c_IntervalSeconds = or_zero 0 (cj_interval_seconds j),
       c_NotificationEmails = or_zero [] (cj_notification_emails j),
       c_SlackWebhook = or_zero '''' (cj_slack_webhook j) \<rparr>"

definition Unmarshal_UpdateWebsiteRequest :: "update_json \<Rightarrow> UpdateWebsiteRequest" where
  "Unmarshal_UpdateWebsiteRequest j =
     \<lparr> u_Name = or_zero '''' (uj_name j),
       u_URL = or_zero '''' (uj_url j),
       u_IntervalSeconds = or_zero 0 (uj_interval_seconds j),
       u_NotificationEmails = or_zero [] (uj_notification_emails j),
       u_SlackWebhook = or_zero '''' (uj_slack_webhook j),
       u_Enabled = or_zero False (uj_enabled j) \<rparr>"

text \<open>A response: the HTTP status and the JSON object served.\<close>

type_synonym response = "nat \<times> (string \<times> string) list"

fun digits :: "nat \<Rightarrow> string" where
  "digits n =
     (if n < 10 then [''0123456789'' ! n]
      else digits (n div 10) @ [''0123456789'' ! (n mod 10)])"

declare digits.simps [simp del]

definition Sprintf_d :: "int \<Rightarrow> string" where
  \<comment> \<open>The verb \<open>%d\<close> of \<open>fmt.Sprintf\<close>.\<close>
  "Sprintf_d i = (if i < 0 then CHR ''-'' # digits (nat (- i)) else digits (nat i))"

text \<open>
  \<open>Post\<close> and \<open>Put\<close> take the engine, the request, and what the environment decides:
  \<open>now\<close> is \<open>time.Now().UnixNano()\<close>, \<open>save\<close> is the error \<open>Storage.SaveWebsites\<close>
  returns. The CORS headers, the same on every path, are left out.
\<close>

definition Post ::
  "MonitorEngine \<Rightarrow> create_json request_body \<Rightarrow> int \<Rightarrow> go_error option
     \<Rightarrow> response \<times> MonitorEngine" where
  "Post me body now save =
     (case body of
        InvalidJSON \<Rightarrow> ((400, [(''error'', ''Invalid JSON'')]), me)
      | JSONObject j \<Rightarrow>
          (let request = Unmarshal_CreateWebsiteRequest j in
           if c_Name request = '''' \<or> c_URL request = ''''
           then ((400, [(''error'', ''Name and URL are required'')]), me)
           else
             (let request = (if c_IntervalSeconds request < 30
                             then request\<lparr>c_IntervalSeconds := 60\<rparr> else request);
                  wid = ''website_'' @ Sprintf_d now;
                  website =
                    \<lparr> ID = wid,
                      Name = c_Name request,
                      URL = c_URL request,
                      IntervalSeconds = c_IntervalSeconds request,
                      Status = ''unknown'',
                      LastCheckTime = zero_time,
                      LastResponseTime = 0,
                      NotificationEmails = c_NotificationEmails request,
                      SlackWebhook = c_SlackWebhook request,
                      Enabled = True \<rparr>;
                  me' = AddWebsite me website
              in case save of
                   Some err \<Rightarrow> ((500, [(''error'', ''Failed to save website'')]), me')
                 | None \<Rightarrow>
                     ((200, [(''id'', wid), (''message'', ''Website created successfully'')]), me'))))"

definition Put ::
  "MonitorEngine \<Rightarrow> string \<Rightarrow> update_json request_body \<Rightarrow> go_error option
     \<Rightarrow> response \<times> MonitorEngine" where
  "Put me wid body save =
     (case GetWebsite me wid of
        None \<Rightarrow> ((404, [(''error'', ''Website not found'')]), me)
      | Some website \<Rightarrow>
          (case body of
             InvalidJSON \<Rightarrow> ((400, [(''error'', ''Invalid JSON'')]), me)
           | JSONObject j \<Rightarrow>
               (let request = Unmarshal_UpdateWebsiteRequest j;
                    website = (if u_Name request \<noteq> ''''
                               then website\<lparr>Name := u_Name request\<rparr> else website);
                    website = (if u_URL request \<noteq> ''''
                               then website\<lparr>URL := u_URL request\<rparr> else website);
                    website = (if u_IntervalSeconds request \<ge> 30
                               then website\<lparr>IntervalSeconds := u_IntervalSeconds request\<rparr>
                               else website);
                    website = website\<lparr>NotificationEmails := u_NotificationEmails request\<rparr>;
                    website = website\<lparr>SlackWebhook := u_SlackWebhook request\<rparr>;
                    website = website\<lparr>Enabled := u_Enabled request\<rparr>;
                    me' = me\<lparr>websites := (websites me)(wid \<mapsto> website)\<rparr>
                in case save of
                     Some err \<Rightarrow> ((500, [(''error'', ''Failed to update website'')]), me')
                   | None \<Rightarrow> ((200, [(''message'', ''Website updated successfully'')]), me'))))"

section \<open>The probe\<close>

text \<open>
  \<open>checkWebsite\<close> talks to the network through \<open>http.NewRequest\<close> and
  \<open>http.Client.Do\<close>, draws a random number and reads the clock. The environment of one
  call is a record: what \<open>http.NewRequest\<close> and \<open>Do\<close> answer, the random number,
  the milliseconds \<open>time.Since(start)\<close> measures after \<open>Do\<close> returns, and the
  \<open>time.Now()\<close> of the result's timestamp.
\<close>

record Request =
  q_Method :: string
  q_URL :: string
  q_Header :: "(string \<times> string) list"

record Response =
  StatusCode :: int

record probe_env =
  NewRequest :: "string \<Rightarrow> string \<Rightarrow> go_error + Request"
  Do :: "Request \<Rightarrow> go_error + Response"
  Intn :: nat
  Since_ms :: int
  Now :: time

definition Header_Set :: "Request \<Rightarrow> string \<Rightarrow> string \<Rightarrow> Request" where
  "Header_Set req k v =
     req\<lparr>q_Header := filter (\<lambda>(k', _). k' \<noteq> k) (q_Header req) @ [(k, v)]\<rparr>"

datatype 'a go_result = Panics string | Returns 'a

definition send_result :: "MonitorEngine \<Rightarrow> CheckResult \<Rightarrow> MonitorEngine" where
  \<comment> \<open>\<open>me.resultChan <- result\<close>. The channel is never closed, and a send on a full
      buffer waits for one of the two loops that receive for the life of the process,
      so the send is an append to what the receivers will read.\<close>
  "send_result me result = me\<lparr>resultChan := resultChan me @ [result]\<rparr>"

definition set_headers :: "string \<Rightarrow> Request \<Rightarrow> Request" where
  \<comment> \<open>The six \<open>req.Header.Set\<close> calls, in the order of the source.\<close>
  "set_headers userAgent req =
     (let req = Header_Set req ''User-Agent'' userAgent;
          req = Header_Set req ''Accept''
                  ''text/html,application/xhtml+xml,application/xml;q=0.9,image/webp,*/*;q=0.8'';
          req = Header_Set req ''Accept-Language'' ''en-US,en;q=0.5'';
          req = Header_Set req ''Accept-Encoding'' ''gzip, deflate'';
          req = Header_Set req ''Connection'' ''keep-alive''
      in Header_Set req ''Upgrade-Insecure-Requests'' ''1'')"

definition checkWebsite :: "MonitorEngine \<Rightarrow> Website \<Rightarrow> probe_env \<Rightarrow> MonitorEngine go_result" where
  "checkWebsite me website env =
     (case NewRequest env ''GET'' (URL website) of
        Inl err \<Rightarrow>
          Returns (send_result me
            \<lparr> r_WebsiteID = ID website,
              r_Status = ''down'',
              r_ResponseTime = 0,
              r_Timestamp = Now env,
              r_Error = Some err \<rparr>)
      | Inr req \<Rightarrow>
          if length (userAgents me) = 0
          then Panics ''invalid argument to Intn''
          else
            (let userAgent = userAgents me ! (Intn env mod length (userAgents me));
                 req = set_headers userAgent req;
                 resp = Do env req;
                 responseTime = Since_ms env;
                 (status, responseTime, err) =
                   (case resp of
                      Inl err \<Rightarrow> (''down'', 0, Some err)
                    | Inr resp \<Rightarrow>
                        (if StatusCode resp \<ge> 200 \<and> StatusCode resp < 400
                         then (''up'', responseTime, None)
                         else (''down'', responseTime, None)))
             in Returns (send_result me
                  \<lparr> r_WebsiteID = ID website,
                    r_Status = status,
                    r_ResponseTime = responseTime,
                    r_Timestamp = Now env,
                    r_Error = err \<rparr>)))"

subsection \<open>The engine's result loop\<close>

text \<open>
  \<open>processResults\<close> ranges over the channel. Its run on the results it receives, each
  with the \<open>time.Now()\<close> read while it is handled, is a recursion over that list; the
  lines it prints are left out.
\<close>

fun processResults :: "MonitorEngine \<Rightarrow> (CheckResult \<times> time) list \<Rightarrow> MonitorEngine" where
  "processResults me [] = me"
| "processResults me ((result, now) # rest) =
     processResults
       (UpdateWebsiteStatus me (r_WebsiteID result) (r_Status result) (r_ResponseTime result) now)
       rest"

section \<open>Notifications\<close>

record NotificationConfig =
  SMTPHost :: string
  SMTPPort :: string
  SMTPUsername :: string
  SMTPPassword :: string
  FromEmail :: string

record StatusChangeEvent =
  e_WebsiteID :: string
  e_WebsiteName :: string
  e_WebsiteURL :: string
  e_OldStatus :: string
  e_NewStatus :: string
  e_ResponseTime :: int
  e_Timestamp :: time
  e_Emails :: "string list"
  e_SlackWebhook :: string

record NotificationManager =
  config :: NotificationConfig
  eventQueue :: "StatusChangeEvent list"
  nm_stopChan_closed :: bool
  nm_running :: bool
  lastNotified :: "string \<rightharpoonup> time"

definition NewNotificationManager :: "NotificationConfig \<Rightarrow> NotificationManager" where
  "NewNotificationManager cfg =
     \<lparr> config = cfg,
       eventQueue = [],
       nm_stopChan_closed = False,
       nm_running = False,
       lastNotified = Map.empty \<rparr>"

definition eventQueue_cap :: nat where
  "eventQueue_cap = 100"

definition Minute :: int where
  "Minute = 60 * 1000000000"

definition time_Sub :: "time \<Rightarrow> time \<Rightarrow> int" where
  \<comment> \<open>\<open>t.Sub(u)\<close>: the difference as a \<open>Duration\<close>, which saturates at the bounds of
      \<open>int64\<close>.\<close>
  "time_Sub t u =
     (let d = t - u in
      if d > 2 ^ 63 - 1 then 2 ^ 63 - 1
      else if d < - (2 ^ 63) then - (2 ^ 63)
      else d)"

definition time_Since :: "time \<Rightarrow> time \<Rightarrow> int" where
  \<comment> \<open>\<open>time.Since(t)\<close> when the clock reads \<open>now\<close>.\<close>
  "time_Since now t = time_Sub now t"

datatype send_outcome = Throttled | Enqueued | QueueFull

text \<open>
  \<open>SendStatusChange\<close> reads the clock twice: \<open>now1\<close> in \<open>time.Since\<close>, \<open>now2\<close> in
  the \<open>time.Now()\<close> it stores. A send on the buffered channel inside \<open>select\<close> with a
  \<open>default\<close> goes through when the buffer has room. The outcome names the branch taken:
  the early return, the send, or the warning printed by the \<open>default\<close> branch.
\<close>

definition recently_notified :: "NotificationManager \<Rightarrow> string \<Rightarrow> time \<Rightarrow> bool" where
  \<comment> \<open>\<open>exists && time.Since(lastNotified) < 5*time.Minute\<close>, the clock reading \<open>now\<close>.\<close>
  "recently_notified nm wid now =
     (case lastNotified nm wid of
        Some t \<Rightarrow> time_Since now t < 5 * Minute
      | None \<Rightarrow> False)"

definition SendStatusChange ::
  "NotificationManager \<Rightarrow> StatusChangeEvent \<Rightarrow> time \<Rightarrow> time
     \<Rightarrow> NotificationManager \<times> send_outcome" where
  "SendStatusChange nm event now1 now2 =
     (if recently_notified nm (e_WebsiteID event) now1
      then (nm, Throttled)
      else if length (eventQueue nm) < eventQueue_cap
      then (nm\<lparr>eventQueue := eventQueue nm @ [event],
               lastNotified := (lastNotified nm)(e_WebsiteID event \<mapsto> now2)\<rparr>, Enqueued)
      else (nm, QueueFull))"

section \<open>Storage\<close>

record HistoryEntry =
  h_Timestamp :: time
  h_Status :: string
  h_ResponseTime :: int

text \<open>
  A file of the data directory is modelled by what reading and decoding it gives.
  A history file \<open>history_<id>.json\<close> is absent, unreadable, holds a document that
  \<open>json.Unmarshal\<close> rejects (the entries it has stored in the slice all the same are
  kept: none after a syntax error, some after a type error), or holds a list of entries.

  The websites file holds, when it is a JSON array, one element per record: \<open>null\<close>
  (decoded to a nil pointer), an object that decodes to a website (a missing key leaves
  the zero value), or an object with a field of the wrong JSON type, for which
  \<open>json.Unmarshal\<close> goes on decoding and reports an \<open>UnmarshalTypeError\<close> at the end.
\<close>

datatype history_file =
    NoHistoryFile
  | UnreadableHistory
  | RejectedHistory "HistoryEntry list"
  | HistoryJSON "HistoryEntry list"

datatype website_elem = JSON_null | JSON_website Website | JSON_mistyped Website

datatype websites_file =
    NoWebsitesFile
  | UnreadableWebsites
  | NotAnArray
  | WebsitesArray "website_elem list"

record Storage =
  websitesFile :: websites_file
  historyFiles :: "string \<Rightarrow> history_file"

text \<open>What the file system does to a save: each step of marshal, write, rename can fail.\<close>

datatype io_outcome = IO_ok | Marshal_fails | WriteFile_fails | Rename_fails

definition is_mistyped :: "website_elem \<Rightarrow> bool" where
  "is_mistyped e = (case e of JSON_mistyped _ \<Rightarrow> True | _ \<Rightarrow> False)"

definition decoded_elem :: "website_elem \<Rightarrow> Website option" where
  \<comment> \<open>The pointer \<open>json.Unmarshal\<close> leaves in the slice: nil for \<open>null\<close>.\<close>
  "decoded_elem e =
     (case e of JSON_null \<Rightarrow> None | JSON_website w \<Rightarrow> Some w | JSON_mistyped w \<Rightarrow> Some w)"

definition Unmarshal_websiteList :: "website_elem list \<Rightarrow> go_error + Website option list" where
  "Unmarshal_websiteList es =
     (if list_ex is_mistyped es then Inl (Err ''json: cannot unmarshal'')
      else Inr (map decoded_elem es))"

fun websites_by_ID ::
  "(string \<rightharpoonup> Website) \<Rightarrow> Website option list \<Rightarrow> (string \<rightharpoonup> Website) go_result" where
  "websites_by_ID m [] = Returns m"
| "websites_by_ID m (None # rest) = Panics ''nil pointer dereference''"
| "websites_by_ID m (Some website # rest) = websites_by_ID (m(ID website \<mapsto> website)) rest"

definition LoadWebsites :: "Storage \<Rightarrow> (go_error + (string \<rightharpoonup> Website)) go_result" where
  "LoadWebsites s =
     (case websitesFile s of
        NoWebsitesFile \<Rightarrow> Returns (Inr Map.empty)
      | UnreadableWebsites \<Rightarrow> Returns (Inl (Err ''failed to read websites file''))
      | NotAnArray \<Rightarrow> Returns (Inl (Err ''failed to unmarshal websites''))
      | WebsitesArray es \<Rightarrow>
          (case Unmarshal_websiteList es of
             Inl err \<Rightarrow> Returns (Inl (Err ''failed to unmarshal websites''))
           | Inr websiteList \<Rightarrow>
               (case websites_by_ID Map.empty websiteList of
                  Panics msg \<Rightarrow> Panics msg
                | Returns m \<Rightarrow> Returns (Inr m))))"

definition existing_history :: "Storage \<Rightarrow> string \<Rightarrow> HistoryEntry list" where
  \<comment> \<open>"Load existing history" in \<open>SaveHistory\<close>: both errors are ignored, and the slice
      starts nil.\<close>
  "existing_history s websiteID =
     (case historyFiles s websiteID of
        NoHistoryFile \<Rightarrow> []
      | UnreadableHistory \<Rightarrow> []
      | RejectedHistory partial \<Rightarrow> partial
      | HistoryJSON h \<Rightarrow> h)"

definition SaveHistory ::
  "Storage \<Rightarrow> string \<Rightarrow> HistoryEntry \<Rightarrow> io_outcome \<Rightarrow> Storage \<times> go_error option" where
  "SaveHistory s websiteID entry io =
     (let history = existing_history s websiteID;
          history = history @ [entry];
          history = (if length history > 1000
                     then drop (length history - 1000) history else history)
      in case io of
           Marshal_fails \<Rightarrow> (s, Some (Err ''failed to marshal history''))
         | WriteFile_fails \<Rightarrow> (s, Some (Err ''failed to write history file''))
         | Rename_fails \<Rightarrow> (s, Some (Err ''failed to rename history file''))
         | IO_ok \<Rightarrow>
             (s\<lparr>historyFiles := (historyFiles s)(websiteID := HistoryJSON history)\<rparr>, None))"

definition LoadHistory :: "Storage \<Rightarrow> string \<Rightarrow> go_error + HistoryEntry list" where
  "LoadHistory s websiteID =
     (case historyFiles s websiteID of
        NoHistoryFile \<Rightarrow> Inr []
      | UnreadableHistory \<Rightarrow> Inl (Err ''failed to read history file'')
      | RejectedHistory partial \<Rightarrow> Inl (Err ''failed to unmarshal history'')
      | HistoryJSON h \<Rightarrow> Inr h)"

definition Hour :: "64 word" where
  "Hour = 3600000000000"

definition hours_ago :: "int \<Rightarrow> int" where
  \<comment> \<open>\<open>-time.Duration(hours) * time.Hour\<close>, a product of \<open>int64\<close> that wraps around.\<close>
  "hours_ago hours = sint (- (word_of_int hours :: 64 word) * Hour)"

definition GetRecentHistory ::
  "Storage \<Rightarrow> string \<Rightarrow> int \<Rightarrow> time \<Rightarrow> go_error + HistoryEntry list" where
  \<comment> \<open>\<open>now\<close> is the \<open>time.Now()\<close> of the cutoff; \<open>After\<close> is strict.\<close>
  "GetRecentHistory s websiteID hours now =
     (case LoadHistory s websiteID of
        Inl err \<Rightarrow> Inl err
      | Inr history \<Rightarrow>
          (let cutoff = now + hours_ago hours
           in Inr (filter (\<lambda>entry. h_Timestamp entry > cutoff) history)))"

subsection \<open>Arithmetic of \<open>float64\<close>\<close>

text \<open>
  A finite \<open>float64\<close> is the rational it denotes. Each operation of the code gives the
  exact result rounded to the nearest value with a 53-bit significand, ties to even
  (IEEE 754 binary64). The bounds of the exponent are not modelled: the quotients and
  products of \<open>CalculateUptime\<close> lie between \<open>2 ^ -63\<close> and \<open>100\<close>.
\<close>

fun bitlen :: "nat \<Rightarrow> nat" where
  "bitlen n = (if n = 0 then 0 else Suc (bitlen (n div 2)))"

declare bitlen.simps [simp del]

definition floor_log2 :: "rat \<Rightarrow> int" where
  \<comment> \<open>For \<open>x > 0\<close>, the \<open>e\<close> with \<open>2 ^ e \<le> x < 2 ^ (e + 1)\<close>.\<close>
  "floor_log2 x =
     (if 1 \<le> x then int (bitlen (nat \<lfloor>x\<rfloor>)) - 1
      else - int (bitlen (nat (\<lceil>1 / x\<rceil> - 1))))"

definition round_half_even :: "rat \<Rightarrow> int" where
  "round_half_even x =
     (let f = \<lfloor>x\<rfloor>; r = x - of_int f in
      if r < 1 / 2 then f
      else if r > 1 / 2 then f + 1
      else if even f then f else f + 1)"

definition to_float64 :: "rat \<Rightarrow> rat" where
  "to_float64 x =
     (if x = 0 then 0
      else
        (let a = \<bar>x\<bar>;
             e = floor_log2 a - 52;
             m = round_half_even (a / (2 powi e))
         in sgn x * of_int m * (2 powi e)))"

definition float64_of_int :: "int \<Rightarrow> rat" where
  "float64_of_int i = to_float64 (of_int i)"

definition float64_div :: "rat \<Rightarrow> rat \<Rightarrow> rat" where
  \<comment> \<open>Used with a divisor that is not zero.\<close>
  "float64_div a b = to_float64 (a / b)"

definition float64_mul :: "rat \<Rightarrow> rat \<Rightarrow> rat" where
  "float64_mul a b = to_float64 (a * b)"

definition count_up :: "HistoryEntry list \<Rightarrow> int" where
  \<comment> \<open>The loop that counts \<open>upCount\<close>.\<close>
  "count_up history =
     fold (\<lambda>entry upCount. if h_Status entry = ''up'' then upCount + 1 else upCount) history 0"

definition CalculateUptime ::
  "Storage \<Rightarrow> string \<Rightarrow> int \<Rightarrow> time \<Rightarrow> rat \<times> go_error option" where
  \<comment> \<open>The pair \<open>(float64, error)\<close> that the function returns.\<close>
  "CalculateUptime s websiteID hours now =
     (case GetRecentHistory s websiteID hours now of
        Inl err \<Rightarrow> (0, Some err)
      | Inr history \<Rightarrow>
          if length history = 0 then (100, None)
          else (float64_mul
                  (float64_div (float64_of_int (count_up history))
                     (float64_of_int (int (length history))))
                  100, None))"

section \<open>The aggregation loop of \<open>main\<close>\<close>

text \<open>
  The goroutine of \<open>main\<close> keeps \<open>previousStatus\<close> and owns the calls to the storage
  and to the notification manager. One iteration takes the result received and what the
  environment gives during it: the outcome of the history save, the engine as
  \<open>GetWebsite\<close> finds it, and the two clock readings of \<open>SendStatusChange\<close>. It
  returns the event handed to \<open>SendStatusChange\<close>, if any.
\<close>

record aggregator =
  previousStatus :: "string \<rightharpoonup> string"
  notificationManager :: NotificationManager
  stor :: Storage

record aggregator_input =
  a_result :: CheckResult
  a_io :: io_outcome
  a_engine :: MonitorEngine
  a_now1 :: time
  a_now2 :: time

definition handle_result ::
  "aggregator \<Rightarrow> aggregator_input \<Rightarrow> aggregator \<times> StatusChangeEvent option" where
  "handle_result ag inp =
     (let result = a_result inp;
          historyEntry =
            \<lparr> h_Timestamp = r_Timestamp result,
              h_Status = r_Status result,
              h_ResponseTime = r_ResponseTime result \<rparr>;
          ag = ag\<lparr>stor := fst (SaveHistory (stor ag) (r_WebsiteID result) historyEntry (a_io inp))\<rparr>;
          (ag, sent) =
            (case previousStatus ag (r_WebsiteID result) of
               None \<Rightarrow> (ag, None)
             | Some prevStatus \<Rightarrow>
                 if prevStatus \<noteq> r_Status result
                 then
                   (case GetWebsite (a_engine inp) (r_WebsiteID result) of
                      None \<Rightarrow> (ag, None)
                    | Some website \<Rightarrow>
                        (let event =
                               \<lparr> e_WebsiteID = r_WebsiteID result,
                                 e_WebsiteName = Name website,
                                 e_WebsiteURL = URL website,
                                 e_OldStatus = prevStatus,
                                 e_NewStatus = r_Status result,
                                 e_ResponseTime = r_ResponseTime result,
                                 e_Timestamp = r_Timestamp result,
                                 e_Emails = NotificationEmails website,
                                 e_SlackWebhook = SlackWebhook website \<rparr>
                         in (ag\<lparr>notificationManager :=
                                   fst (SendStatusChange (notificationManager ag) event
                                          (a_now1 inp) (a_now2 inp))\<rparr>,
                             Some event)))
                 else (ag, None))
      in (ag\<lparr>previousStatus := (previousStatus ag)(r_WebsiteID result \<mapsto> r_Status result)\<rparr>,
          sent))"

fun aggregate ::
  "aggregator \<Rightarrow> aggregator_input list \<Rightarrow> aggregator \<times> StatusChangeEvent option list" where
  "aggregate ag [] = (ag, [])"
| "aggregate ag (inp # rest) =
     (let (ag', sent) = handle_result ag inp;
          (ag'', sents) = aggregate ag' rest
      in (ag'', sent # sents))"

definition new_aggregator :: "NotificationManager \<Rightarrow> Storage \<Rightarrow> aggregator" where
  "new_aggregator nm s =
     \<lparr> previousStatus = Map.empty, notificationManager = nm, stor = s \<rparr>"

subsection \<open>Two loops on one channel\<close>

text \<open>
  \<open>Start\<close> runs \<open>processResults\<close>, which ranges over \<open>me.resultChan\<close>; the goroutine of
  \<open>main\<close> ranges over \<open>GetResultChannel()\<close>, which returns the same channel. A value sent
  on a Go channel is received by exactly one receiver, so each result goes to one of the two
  loops, whichever the scheduler lets receive. One receive takes the oldest result of the
  channel and runs the body of the loop that received it: \<open>UpdateWebsiteStatus\<close> in
  \<open>processResults\<close>, the history save and the transition check in \<open>main\<close>. What the
  environment decides for the receive is the loop that receives, the clock, and the outcome
  of the history save; a receive on an empty channel waits, and changes nothing.
\<close>

datatype receiver = processResults_receives | main_receives

record receive_env =
  v_receiver :: receiver
  v_now :: time
  v_io :: io_outcome

definition receive_result ::
  "MonitorEngine \<times> aggregator \<Rightarrow> receive_env \<Rightarrow> MonitorEngine \<times> aggregator" where
  "receive_result sys env =
     (case resultChan (fst sys) of
        [] \<Rightarrow> sys
      | result # rest \<Rightarrow>
          (let me = (fst sys)\<lparr>resultChan := rest\<rparr>;
               ag = snd sys
           in case v_receiver env of
                processResults_receives \<Rightarrow>
                  (UpdateWebsiteStatus me (r_WebsiteID result) (r_Status result)
                     (r_ResponseTime result) (v_now env),
                   ag)
              | main_receives \<Rightarrow>
                  (me,
                   fst (handle_result ag
                          \<lparr> a_result = result, a_io = v_io env, a_engine = me,
                            a_now1 = v_now env, a_now2 = v_now env \<rparr>))))"

section \<open>Example values\<close>

definition site1 :: Website where
  "site1 =
     \<lparr> ID = ''website_1'',
       Name = ''Example'',
       URL = ''https://www.example.com'',
       IntervalSeconds = 120,
       Status = ''unknown'',
       LastCheckTime = zero_time,
       LastResponseTime = 0,
       NotificationEmails = [''admin@example.com''],
       SlackWebhook = ''https://hooks.slack.com/services/T0'',
       Enabled = True \<rparr>"

definition site2 :: Website where
  "site2 = site1\<lparr>ID := ''website_2'', Name := ''Other'', URL := ''https://www.example.org''\<rparr>"

definition engine1 :: MonitorEngine where
  \<comment> \<open>A running engine that holds \<open>site1\<close>.\<close>
  "engine1 = Start (AddWebsite NewMonitorEngine site1)"

definition no_fields :: update_json where
  \<comment> \<open>The body \<open>{}\<close>.\<close>
  "no_fields =
     \<lparr> uj_name = None, uj_url = None, uj_interval_seconds = None,
       uj_notification_emails = None, uj_slack_webhook = None, uj_enabled = None \<rparr>"

definition create_fields :: create_json where
  "create_fields =
     \<lparr> cj_name = Some ''Example'', cj_url = Some ''https://www.example.com'',
       cj_interval_seconds = Some 10, cj_notification_emails = None,
       cj_slack_webhook = None \<rparr>"

definition result_at :: "string \<Rightarrow> string \<Rightarrow> int \<Rightarrow> time \<Rightarrow> CheckResult" where
  "result_at wid status ms t =
     \<lparr> r_WebsiteID = wid, r_Status = status, r_ResponseTime = ms, r_Timestamp = t,
       r_Error = None \<rparr>"

definition event1 :: StatusChangeEvent where
  "event1 =
     \<lparr> e_WebsiteID = ''website_1'',
       e_WebsiteName = ''Example'',
       e_WebsiteURL = ''https://www.example.com'',
       e_OldStatus = ''up'',
       e_NewStatus = ''down'',
       e_ResponseTime = 0,
       e_Timestamp = 0,
       e_Emails = [''admin@example.com''],
       e_SlackWebhook = [] \<rparr>"

definition config0 :: NotificationConfig where
  "config0 =
     \<lparr> SMTPHost = [], SMTPPort = [], SMTPUsername = [], SMTPPassword = [],
       FromEmail = [] \<rparr>"

definition storage0 :: Storage where
  \<comment> \<open>An empty data directory.\<close>
  "storage0 = \<lparr> websitesFile = NoWebsitesFile, historyFiles = (\<lambda>_. NoHistoryFile) \<rparr>"

definition sample :: "string \<Rightarrow> HistoryEntry" where
  "sample status = \<lparr> h_Timestamp = 1000, h_Status = status, h_ResponseTime = 42 \<rparr>"

definition accept_request :: "string \<Rightarrow> string \<Rightarrow> go_error + Request" where
  "accept_request method url = Inr \<lparr> q_Method = method, q_URL = url, q_Header = [] \<rparr>"

definition env_status :: "int \<Rightarrow> probe_env" where
  \<comment> \<open>The server answers with the given status code after 120 ms.\<close>
  "env_status code =
     \<lparr> NewRequest = accept_request,
       Do = (\<lambda>_. Inr \<lparr> StatusCode = code \<rparr>),
       Intn = 3, Since_ms = 120, Now = 1000 \<rparr>"

definition env_refused :: probe_env where
  "env_refused =
     \<lparr> NewRequest = accept_request,
       Do = (\<lambda>_. Inl (Err ''connection refused'')),
       Intn = 3, Since_ms = 120, Now = 1000 \<rparr>"

definition env_bad_url :: probe_env where
  "env_bad_url =
     \<lparr> NewRequest = (\<lambda>_ _. Inl (Err ''invalid URL'')),
       Do = (\<lambda>_. Inr \<lparr> StatusCode = 200 \<rparr>),
       Intn = 3, Since_ms = 120, Now = 1000 \<rparr>"

definition full_storage :: Storage where
  \<comment> \<open>Every history file holds 1000 entries.\<close>
  "full_storage =
     storage0\<lparr>historyFiles := (\<lambda>_. HistoryJSON (replicate 1000 (sample ''down'')))\<rparr>"

definition storage_one_bad :: Storage where
  \<comment> \<open>A websites file of two records, the second with \<open>"interval_seconds": "fast"\<close>.\<close>
  "storage_one_bad =
     storage0\<lparr>websitesFile :=
       WebsitesArray [JSON_website site1, JSON_mistyped (site2\<lparr>IntervalSeconds := 0\<rparr>)]\<rparr>"

definition storage_two_good :: Storage where
  "storage_two_good =
     storage0\<lparr>websitesFile := WebsitesArray (map JSON_website [site1, site2])\<rparr>"

definition nm_notified :: NotificationManager where
  \<comment> \<open>A notification for \<open>website_1\<close> was recorded at time 0.\<close>
  "nm_notified =
     (NewNotificationManager config0)\<lparr>lastNotified := [''website_1'' \<mapsto> 0]\<rparr>"

definition input_at :: "CheckResult \<Rightarrow> MonitorEngine \<Rightarrow> aggregator_input" where
  "input_at result me =
     \<lparr> a_result = result, a_io = IO_ok, a_engine = me,
       a_now1 = r_Timestamp result, a_now2 = r_Timestamp result \<rparr>"

definition aggregator0 :: aggregator where
  "aggregator0 = new_aggregator (NewNotificationManager config0) storage0"

definition in_up :: aggregator_input where
  "in_up = input_at (result_at ''website_1'' ''up'' 120 1000) engine1"

definition in_down :: aggregator_input where
  "in_down = input_at (result_at ''website_1'' ''down'' 0 2000) engine1"

definition in_down_removed :: aggregator_input where
  \<comment> \<open>The same result, received after the website was removed from the registry.\<close>
  "in_down_removed =
     input_at (result_at ''website_1'' ''down'' 0 2000) (RemoveWebsite engine1 ''website_1'')"

definition after_up :: aggregator where
  \<comment> \<open>The loop's state after the first result for \<open>website_1\<close>, "up", from the empty table.\<close>
  "after_up = fst (aggregate aggregator0 [in_up])"

definition old_sample :: "string \<Rightarrow> HistoryEntry" where
  \<comment> \<open>A sample taken 25 hours before time 0.\<close>
  "old_sample status =
     \<lparr> h_Timestamp = - 90000000000000, h_Status = status, h_ResponseTime = 42 \<rparr>"

definition storage_old_and_recent :: Storage where
  \<comment> \<open>Every history file holds five old samples, all "up", and then ten recent ones, seven
      of them "up".\<close>
  "storage_old_and_recent =
     storage0\<lparr>historyFiles :=
       (\<lambda>_. HistoryJSON (replicate 5 (old_sample ''up'') @
                         replicate 7 (sample ''up'') @ replicate 3 (sample ''down'')))\<rparr>"

definition storage_only_old :: Storage where
  \<comment> \<open>Every history file holds five old samples, all "down".\<close>
  "storage_only_old =
     storage0\<lparr>historyFiles := (\<lambda>_. HistoryJSON (replicate 5 (old_sample ''down'')))\<rparr>"

definition result_up :: CheckResult where
  "result_up = result_at ''website_1'' ''up'' 120 1000"

definition result_down :: CheckResult where
  "result_down = result_at ''website_1'' ''down'' 0 2000"

definition engine_two_results :: MonitorEngine where
  \<comment> \<open>The running engine after two checks of \<open>site1\<close>: first "up", then "down".\<close>
  "engine_two_results = send_result (send_result engine1 result_up) result_down"

definition received_by :: "receiver \<Rightarrow> time \<Rightarrow> receive_env" where
  "received_by who now = \<lparr> v_receiver = who, v_now = now, v_io = IO_ok \<rparr>"

section \<open>Properties of the controller\<close>

lemma Post_accepted:
  assumes "c_Name (Unmarshal_CreateWebsiteRequest j) \<noteq> []"
    and "c_URL (Unmarshal_CreateWebsiteRequest j) \<noteq> []"
  shows "\<exists>w. websites (snd (Post me (JSONObject j) now save)) (''website_'' @ Sprintf_d now) = Some w
           \<and> IntervalSeconds w =
               (if c_IntervalSeconds (Unmarshal_CreateWebsiteRequest j) < 30 then 60
                else c_IntervalSeconds (Unmarshal_CreateWebsiteRequest j))"
  using assms
  by (cases save) (simp_all add: Post_def AddWebsite_def Let_def)

lemma Put_found:
  assumes "websites me wid = Some w"
  shows "websites (snd (Put me wid (JSONObject j) save)) wid =
           Some (w\<lparr>Name := (if u_Name (Unmarshal_UpdateWebsiteRequest j) \<noteq> []
                            then u_Name (Unmarshal_UpdateWebsiteRequest j) else Name w),
                   URL := (if u_URL (Unmarshal_UpdateWebsiteRequest j) \<noteq> []
                           then u_URL (Unmarshal_UpdateWebsiteRequest j) else URL w),
                   IntervalSeconds := (if u_IntervalSeconds (Unmarshal_UpdateWebsiteRequest j) \<ge> 30
                           then u_IntervalSeconds (Unmarshal_UpdateWebsiteRequest j)
                           else IntervalSeconds w),
                   NotificationEmails := u_NotificationEmails (Unmarshal_UpdateWebsiteRequest j),
                   SlackWebhook := u_SlackWebhook (Unmarshal_UpdateWebsiteRequest j),
                   Enabled := u_Enabled (Unmarshal_UpdateWebsiteRequest j)\<rparr>)"
  using assms
  by (cases save) (simp_all add: Put_def GetWebsite_def Let_def)

lemma engine1_site1: "websites engine1 ''website_1'' = Some site1"
  by (simp add: engine1_def Start_def AddWebsite_def NewMonitorEngine_def site1_def)

lemma interval_10:
  "u_IntervalSeconds (Unmarshal_UpdateWebsiteRequest (no_fields\<lparr>uj_interval_seconds := Some 10\<rparr>)) = 10"
  by (simp add: Unmarshal_UpdateWebsiteRequest_def no_fields_def or_zero_def)

text \<open>
  C5, as amended. A create request that is accepted (name and URL not empty) with an
  interval below 30 stores a website whose interval is 60. An update request with an
  interval below 30 does not coerce: it leaves the stored interval as it was; an update
  with an interval of 30 or more stores that interval.
\<close>

theorem interval_coercion:
  "(c_Name (Unmarshal_CreateWebsiteRequest j) \<noteq> [] \<and>
    c_URL (Unmarshal_CreateWebsiteRequest j) \<noteq> [] \<and>
    c_IntervalSeconds (Unmarshal_CreateWebsiteRequest j) < 30 \<longrightarrow>
      map_option IntervalSeconds
        (websites (snd (Post me (JSONObject j) now save)) (''website_'' @ Sprintf_d now)) = Some 60)
   \<and> (websites me wid = Some w \<and> u_IntervalSeconds (Unmarshal_UpdateWebsiteRequest uj) < 30 \<longrightarrow>
      map_option IntervalSeconds (websites (snd (Put me wid (JSONObject uj) save')) wid)
        = Some (IntervalSeconds w))
   \<and> (websites me wid = Some w \<and> u_IntervalSeconds (Unmarshal_UpdateWebsiteRequest uj) \<ge> 30 \<longrightarrow>
      map_option IntervalSeconds (websites (snd (Put me wid (JSONObject uj) save')) wid)
        = Some (u_IntervalSeconds (Unmarshal_UpdateWebsiteRequest uj)))"
proof (intro conjI impI)
  assume a: "c_Name (Unmarshal_CreateWebsiteRequest j) \<noteq> [] \<and>
    c_URL (Unmarshal_CreateWebsiteRequest j) \<noteq> [] \<and>
    c_IntervalSeconds (Unmarshal_CreateWebsiteRequest j) < 30"
  from Post_accepted [of j me now save] a
  show "map_option IntervalSeconds
        (websites (snd (Post me (JSONObject j) now save)) (''website_'' @ Sprintf_d now)) = Some 60"
    by auto
next
  assume "websites me wid = Some w \<and> u_IntervalSeconds (Unmarshal_UpdateWebsiteRequest uj) < 30"
  then show "map_option IntervalSeconds (websites (snd (Put me wid (JSONObject uj) save')) wid)
        = Some (IntervalSeconds w)"
    by (simp add: Put_found)
next
  assume "websites me wid = Some w \<and> u_IntervalSeconds (Unmarshal_UpdateWebsiteRequest uj) \<ge> 30"
  then show "map_option IntervalSeconds (websites (snd (Put me wid (JSONObject uj) save')) wid)
        = Some (u_IntervalSeconds (Unmarshal_UpdateWebsiteRequest uj))"
    by (simp add: Put_found)
qed

text \<open>
  The claim as stated fails on an update: \<open>site1\<close> is stored with an interval of 120,
  the request \<open>{"interval_seconds": 10}\<close> carries an interval below 30, and the stored
  interval after \<open>Put\<close> is still 120, not 60.
\<close>

theorem interval_coercion_counterexample:
  "map_option IntervalSeconds
     (websites (snd (Put engine1 ''website_1''
        (JSONObject (no_fields\<lparr>uj_interval_seconds := Some 10\<rparr>)) None)) ''website_1'') = Some 120
   \<and> map_option IntervalSeconds
     (websites (snd (Put engine1 ''website_1''
        (JSONObject (no_fields\<lparr>uj_interval_seconds := Some 10\<rparr>)) None)) ''website_1'') \<noteq> Some 60"
  by (simp add: Put_found [OF engine1_site1] interval_10) (simp add: site1_def)

theorem interval_coercion_witness:
  "map_option IntervalSeconds
      (websites (snd (Post engine1 (JSONObject create_fields) 42 None))
         ''website_42'') = Some 60
   \<and> map_option IntervalSeconds
      (websites (snd (Put engine1 ''website_1''
         (JSONObject (no_fields\<lparr>uj_interval_seconds := Some 10\<rparr>)) None)) ''website_1'') = Some 120
   \<and> map_option IntervalSeconds
      (websites (snd (Put engine1 ''website_1''
         (JSONObject (no_fields\<lparr>uj_interval_seconds := Some 45\<rparr>)) None)) ''website_1'') = Some 45"
proof -
  have d: "Sprintf_d 42 = ''42''"
    by (simp add: Sprintf_d_def digits.simps)
  have c: "c_Name (Unmarshal_CreateWebsiteRequest create_fields) \<noteq> [] \<and>
    c_URL (Unmarshal_CreateWebsiteRequest create_fields) \<noteq> [] \<and>
    c_IntervalSeconds (Unmarshal_CreateWebsiteRequest create_fields) < 30"
    by (simp add: Unmarshal_CreateWebsiteRequest_def create_fields_def or_zero_def)
  have h: "u_IntervalSeconds (Unmarshal_UpdateWebsiteRequest (no_fields\<lparr>uj_interval_seconds := Some 45\<rparr>)) = 45"
    by (simp add: Unmarshal_UpdateWebsiteRequest_def no_fields_def or_zero_def)
  have s: "IntervalSeconds site1 = 120" by (simp add: site1_def)
  show ?thesis
    using interval_coercion [where j = create_fields and me = engine1 and wid = "''website_1''"
        and w = site1 and uj = "no_fields\<lparr>uj_interval_seconds := Some 10\<rparr>"
        and now = 42 and save = None and save' = None]
      interval_coercion [where j = create_fields and me = engine1 and wid = "''website_1''"
        and w = site1 and uj = "no_fields\<lparr>uj_interval_seconds := Some 45\<rparr>"
        and now = 42 and save = None and save' = None]
      c engine1_site1 interval_10 h s d
    by simp
qed

text \<open>
  C10. An update of a registered website keeps the stored name when the request's name is
  empty, the stored URL when the request's URL is empty, and the stored interval when the
  request's interval is below 30. The notification emails, the webhook and the enabled flag
  are always overwritten with the request's values, so a body that omits them leaves the
  website with no emails, no webhook, and disabled.
\<close>

theorem Put_frame:
  assumes "websites me wid = Some w"
  shows "\<exists>w'. websites (snd (Put me wid (JSONObject j) save)) wid = Some w'
     \<and> (u_Name (Unmarshal_UpdateWebsiteRequest j) = [] \<longrightarrow> Name w' = Name w)
     \<and> (u_URL (Unmarshal_UpdateWebsiteRequest j) = [] \<longrightarrow> URL w' = URL w)
     \<and> (u_IntervalSeconds (Unmarshal_UpdateWebsiteRequest j) < 30 \<longrightarrow>
          IntervalSeconds w' = IntervalSeconds w)
     \<and> NotificationEmails w' = u_NotificationEmails (Unmarshal_UpdateWebsiteRequest j)
     \<and> SlackWebhook w' = u_SlackWebhook (Unmarshal_UpdateWebsiteRequest j)
     \<and> Enabled w' = u_Enabled (Unmarshal_UpdateWebsiteRequest j)
     \<and> (uj_notification_emails j = None \<longrightarrow> NotificationEmails w' = [])
     \<and> (uj_slack_webhook j = None \<longrightarrow> SlackWebhook w' = [])
     \<and> (uj_enabled j = None \<longrightarrow> \<not> Enabled w')"
proof -
  have z: "uj_notification_emails j = None \<longrightarrow> u_NotificationEmails (Unmarshal_UpdateWebsiteRequest j) = []"
    "uj_slack_webhook j = None \<longrightarrow> u_SlackWebhook (Unmarshal_UpdateWebsiteRequest j) = []"
    "uj_enabled j = None \<longrightarrow> \<not> u_Enabled (Unmarshal_UpdateWebsiteRequest j)"
    by (simp_all add: Unmarshal_UpdateWebsiteRequest_def or_zero_def)
  show ?thesis
    using z by (simp add: Put_found [OF assms])
qed

theorem Put_frame_witness:
  "\<exists>w'. websites (snd (Put engine1 ''website_1'' (JSONObject no_fields) None)) ''website_1'' = Some w'
     \<and> Name w' = ''Example''
     \<and> URL w' = ''https://www.example.com''
     \<and> IntervalSeconds w' = 120
     \<and> NotificationEmails w' = []
     \<and> SlackWebhook w' = []
     \<and> \<not> Enabled w'"
proof -
  have r: "u_Name (Unmarshal_UpdateWebsiteRequest no_fields) = []"
    "u_URL (Unmarshal_UpdateWebsiteRequest no_fields) = []"
    "u_IntervalSeconds (Unmarshal_UpdateWebsiteRequest no_fields) < 30"
    "uj_notification_emails no_fields = None"
    "uj_slack_webhook no_fields = None"
    "uj_enabled no_fields = None"
    by (simp_all add: Unmarshal_UpdateWebsiteRequest_def or_zero_def no_fields_def)
  have s: "Name site1 = ''Example''" "URL site1 = ''https://www.example.com''"
    "IntervalSeconds site1 = 120"
    by (simp_all add: site1_def)
  from Put_frame [OF engine1_site1, of no_fields None] r s
  show ?thesis by auto
qed

section \<open>Properties of the engine\<close>

lemma AddWebsite_goroutines: "goroutines (AddWebsite me website) = goroutines me"
  by (simp add: AddWebsite_def)

lemma Start_new_goroutines: "goroutines (Start NewMonitorEngine) = {processResults_loop}"
  by (simp add: Start_def NewMonitorEngine_def GetAllWebsites_def)

text \<open>
  C6 at a failing input. The engine is started with an empty registry and the enabled
  website \<open>site1\<close> is then added. \<open>AddWebsite\<close> stores the record and starts nothing:
  the engine is running, the website is registered and enabled, and the only loop started
  is \<open>processResults\<close>; no \<open>monitorWebsite\<close> loop exists for the website, which is
  therefore never probed.
\<close>

theorem AddWebsite_starts_no_loop:
  "running (AddWebsite (Start NewMonitorEngine) site1)
   \<and> websites (AddWebsite (Start NewMonitorEngine) site1) ''website_1'' = Some site1
   \<and> Enabled site1
   \<and> goroutines (AddWebsite (Start NewMonitorEngine) site1) = {processResults_loop}
   \<and> monitorWebsite_loop ''website_1'' \<notin> goroutines (AddWebsite (Start NewMonitorEngine) site1)"
proof -
  have "running (AddWebsite (Start NewMonitorEngine) site1)"
    by (simp add: AddWebsite_def Start_def NewMonitorEngine_def)
  moreover have "websites (AddWebsite (Start NewMonitorEngine) site1) ''website_1'' = Some site1"
    by (simp add: AddWebsite_def site1_def)
  moreover have "Enabled site1"
    by (simp add: site1_def)
  moreover have "goroutines (AddWebsite (Start NewMonitorEngine) site1) = {processResults_loop}"
    by (simp add: AddWebsite_goroutines Start_new_goroutines)
  ultimately show ?thesis by simp
qed

lemma NewMonitorEngine_userAgents: "length (userAgents NewMonitorEngine) = 8"
  by (simp add: NewMonitorEngine_def)

lemma userAgents_kept:
  "userAgents (AddWebsite me website) = userAgents me"
  "userAgents (RemoveWebsite me wid) = userAgents me"
  "userAgents (UpdateWebsiteStatus me wid status ms now) = userAgents me"
  "userAgents (Start me) = userAgents me"
  "userAgents (Stop me) = userAgents me"
  "userAgents (send_result me result) = userAgents me"
  by (simp_all add: AddWebsite_def RemoveWebsite_def UpdateWebsiteStatus_def Start_def Stop_def
      send_result_def split: option.splits)

lemma checkWebsite_request_fails:
  assumes "NewRequest env ''GET'' (URL website) = Inl err"
  shows "checkWebsite me website env =
           Returns (send_result me
             \<lparr> r_WebsiteID = ID website, r_Status = ''down'', r_ResponseTime = 0,
               r_Timestamp = Now env, r_Error = Some err \<rparr>)"
  using assms by (simp add: checkWebsite_def)

lemma checkWebsite_request_built:
  assumes "NewRequest env ''GET'' (URL website) = Inr req"
    and "userAgents me \<noteq> []"
  shows "checkWebsite me website env =
           Returns (send_result me
             (case Do env (set_headers (userAgents me ! (Intn env mod length (userAgents me))) req) of
                Inl err \<Rightarrow>
                  \<lparr> r_WebsiteID = ID website, r_Status = ''down'', r_ResponseTime = 0,
                    r_Timestamp = Now env, r_Error = Some err \<rparr>
              | Inr resp \<Rightarrow>
                  \<lparr> r_WebsiteID = ID website,
                    r_Status = (if 200 \<le> StatusCode resp \<and> StatusCode resp < 400
                                then ''up'' else ''down''),
                    r_ResponseTime = Since_ms env,
                    r_Timestamp = Now env, r_Error = None \<rparr>))"
  using assms by (simp add: checkWebsite_def Let_def split: sum.splits)

text \<open>
  C3. On an engine whose pool of user agents is not empty (the pool of
  \<open>NewMonitorEngine\<close> has eight), one check returns without a panic and sends exactly
  one result for the website, appended to the result channel: status "down", latency 0
  and the error recorded when the request cannot be built or the round trip fails; status
  "up" with the measured latency when the response's status code is in [200, 400); status
  "down" with the measured latency for any other status code.
\<close>

theorem checkWebsite_one_outcome:
  assumes "userAgents me \<noteq> []"
  shows "\<exists>me' result.
      checkWebsite me website env = Returns me'
    \<and> resultChan me' = resultChan me @ [result]
    \<and> websites me' = websites me
    \<and> r_WebsiteID result = ID website
    \<and> r_Timestamp result = Now env
    \<and> (case NewRequest env ''GET'' (URL website) of
          Inl err \<Rightarrow>
            r_Status result = ''down'' \<and> r_ResponseTime result = 0 \<and> r_Error result = Some err
        | Inr req \<Rightarrow>
            (case Do env (set_headers (userAgents me ! (Intn env mod length (userAgents me))) req) of
               Inl err \<Rightarrow>
                 r_Status result = ''down'' \<and> r_ResponseTime result = 0
                   \<and> r_Error result = Some err
             | Inr resp \<Rightarrow>
                 r_Status result =
                   (if 200 \<le> StatusCode resp \<and> StatusCode resp < 400 then ''up'' else ''down'')
                   \<and> r_ResponseTime result = Since_ms env
                   \<and> r_Error result = None))"
proof (cases "NewRequest env ''GET'' (URL website)")
  case (Inl err)
  show ?thesis
    unfolding checkWebsite_request_fails [OF Inl]
    by (simp add: Inl send_result_def)
next
  case (Inr req)
  show ?thesis
    unfolding checkWebsite_request_built [OF Inr assms]
    by (cases "Do env (set_headers (userAgents me ! (Intn env mod length (userAgents me))) req)")
      (simp_all add: Inr send_result_def)
qed

theorem checkWebsite_one_outcome_witness:
  "(\<exists>me' result. checkWebsite NewMonitorEngine site1 (env_status 200) = Returns me'
      \<and> resultChan me' = [result] \<and> r_WebsiteID result = ''website_1''
      \<and> r_Status result = ''up'' \<and> r_ResponseTime result = 120 \<and> r_Error result = None)
   \<and> (\<exists>me' result. checkWebsite NewMonitorEngine site1 (env_status 404) = Returns me'
      \<and> resultChan me' = [result] \<and> r_WebsiteID result = ''website_1''
      \<and> r_Status result = ''down'' \<and> r_ResponseTime result = 120 \<and> r_Error result = None)
   \<and> (\<exists>me' result. checkWebsite NewMonitorEngine site1 env_refused = Returns me'
      \<and> resultChan me' = [result] \<and> r_WebsiteID result = ''website_1''
      \<and> r_Status result = ''down'' \<and> r_ResponseTime result = 0
      \<and> r_Error result = Some (Err ''connection refused''))
   \<and> (\<exists>me' result. checkWebsite NewMonitorEngine site1 env_bad_url = Returns me'
      \<and> resultChan me' = [result] \<and> r_WebsiteID result = ''website_1''
      \<and> r_Status result = ''down'' \<and> r_ResponseTime result = 0
      \<and> r_Error result = Some (Err ''invalid URL''))"
proof -
  have ua: "userAgents NewMonitorEngine \<noteq> []"
    using NewMonitorEngine_userAgents by auto
  have ch: "resultChan NewMonitorEngine = []"
    by (simp add: NewMonitorEngine_def)
  have s: "ID site1 = ''website_1''"
    by (simp add: site1_def)
  have "\<exists>me' result. checkWebsite NewMonitorEngine site1 (env_status 200) = Returns me'
      \<and> resultChan me' = [result] \<and> r_WebsiteID result = ''website_1''
      \<and> r_Status result = ''up'' \<and> r_ResponseTime result = 120 \<and> r_Error result = None"
    using checkWebsite_one_outcome [OF ua, of site1 "env_status 200"]
    by (auto simp add: env_status_def accept_request_def ch s)
  moreover have "\<exists>me' result. checkWebsite NewMonitorEngine site1 (env_status 404) = Returns me'
      \<and> resultChan me' = [result] \<and> r_WebsiteID result = ''website_1''
      \<and> r_Status result = ''down'' \<and> r_ResponseTime result = 120 \<and> r_Error result = None"
    using checkWebsite_one_outcome [OF ua, of site1 "env_status 404"]
    by (auto simp add: env_status_def accept_request_def ch s)
  moreover have "\<exists>me' result. checkWebsite NewMonitorEngine site1 env_refused = Returns me'
      \<and> resultChan me' = [result] \<and> r_WebsiteID result = ''website_1''
      \<and> r_Status result = ''down'' \<and> r_ResponseTime result = 0
      \<and> r_Error result = Some (Err ''connection refused'')"
    using checkWebsite_one_outcome [OF ua, of site1 env_refused]
    by (auto simp add: env_refused_def accept_request_def ch s)
  moreover have "\<exists>me' result. checkWebsite NewMonitorEngine site1 env_bad_url = Returns me'
      \<and> resultChan me' = [result] \<and> r_WebsiteID result = ''website_1''
      \<and> r_Status result = ''down'' \<and> r_ResponseTime result = 0
      \<and> r_Error result = Some (Err ''invalid URL'')"
    using checkWebsite_one_outcome [OF ua, of site1 env_bad_url]
    by (auto simp add: env_bad_url_def ch s)
  ultimately show ?thesis by blast
qed

lemma UpdateWebsiteStatus_other:
  "wid' \<noteq> wid \<Longrightarrow> websites (UpdateWebsiteStatus me wid' status ms now) wid = websites me wid"
  by (simp add: UpdateWebsiteStatus_def split: option.splits)

lemma UpdateWebsiteStatus_same:
  "websites me wid = Some w \<Longrightarrow>
   websites (UpdateWebsiteStatus me wid status ms now) wid =
     Some (w\<lparr>Status := status, LastResponseTime := ms, LastCheckTime := now\<rparr>)"
  by (simp add: UpdateWebsiteStatus_def)

lemma processResults_others:
  "filter (\<lambda>(r, t). r_WebsiteID r = wid) rs = [] \<Longrightarrow>
   websites (processResults me rs) wid = websites me wid"
proof (induction rs arbitrary: me)
  case Nil
  show ?case by simp
next
  case (Cons x rs)
  obtain r t where x: "x = (r, t)" by (cases x)
  from Cons.prems x have ne: "r_WebsiteID r \<noteq> wid" and rest: "filter (\<lambda>(r, t). r_WebsiteID r = wid) rs = []"
    by (auto split: if_splits)
  show ?case
    by (simp add: x Cons.IH [OF rest] UpdateWebsiteStatus_other [OF ne])
qed

text \<open>
  The loop \<open>processResults\<close> on its own, for the results it receives. Let a website be
  registered when the loop starts on a sequence of results (for any websites, in any order)
  that holds at least one result for it. After the sequence, its registry record is the
  record it had with the status and the response time of the last result for it, and with
  the time at which that result was handled as its last check time.
\<close>

lemma processResults_last_outcome:
  assumes "websites me wid = Some w"
    and "filter (\<lambda>(r, t). r_WebsiteID r = wid) rs \<noteq> []"
  shows "websites (processResults me rs) wid =
           Some (w\<lparr>Status := r_Status (fst (last (filter (\<lambda>(r, t). r_WebsiteID r = wid) rs))),
                   LastResponseTime :=
                     r_ResponseTime (fst (last (filter (\<lambda>(r, t). r_WebsiteID r = wid) rs))),
                   LastCheckTime := snd (last (filter (\<lambda>(r, t). r_WebsiteID r = wid) rs))\<rparr>)"
  using assms
proof (induction rs arbitrary: me w)
  case Nil
  then show ?case by simp
next
  case (Cons x rs)
  obtain r t where x: "x = (r, t)" by (cases x)
  let ?me = "UpdateWebsiteStatus me (r_WebsiteID r) (r_Status r) (r_ResponseTime r) t"
  let ?f = "filter (\<lambda>(r, t). r_WebsiteID r = wid)"
  show ?case
  proof (cases "?f rs = []")
    case True
    with Cons.prems(2) x have same: "r_WebsiteID r = wid"
      by (auto split: if_splits)
    have "websites (processResults me (x # rs)) wid = websites ?me wid"
      by (simp add: x processResults_others [OF True])
    also have "\<dots> = Some (w\<lparr>Status := r_Status r, LastResponseTime := r_ResponseTime r,
                            LastCheckTime := t\<rparr>)"
      using UpdateWebsiteStatus_same [OF Cons.prems(1)] same by simp
    finally show ?thesis
      using True same by (simp add: x)
  next
    case False
    have "\<exists>s ms c. websites ?me wid = Some (w\<lparr>Status := s, LastResponseTime := ms, LastCheckTime := c\<rparr>)"
    proof (cases "r_WebsiteID r = wid")
      case True
      then show ?thesis
        using UpdateWebsiteStatus_same [OF Cons.prems(1)] by blast
    next
      case False
      have "w = w\<lparr>Status := Status w, LastResponseTime := LastResponseTime w,
                   LastCheckTime := LastCheckTime w\<rparr>"
        by simp
      then show ?thesis
        using UpdateWebsiteStatus_other [OF False] Cons.prems(1) by metis
    qed
    then obtain s ms c where
      w': "websites ?me wid = Some (w\<lparr>Status := s, LastResponseTime := ms, LastCheckTime := c\<rparr>)"
      by blast
    have l: "last (?f ((r, t) # rs)) = last (?f rs)"
      using False by simp
    show ?thesis
      using Cons.IH [OF w' False] by (simp add: x l del: filter.simps)
  qed
qed

lemma processResults_last_outcome_example:
  "websites
     (processResults engine1
        [(result_at ''website_1'' ''up'' 120 1000, 1001),
         (result_at ''website_2'' ''up'' 80 2000, 2001),
         (result_at ''website_1'' ''down'' 0 3000, 3001)]) ''website_1''
   = Some (site1\<lparr>Status := ''down'', LastResponseTime := 0, LastCheckTime := 3001\<rparr>)"
proof -
  have f: "filter (\<lambda>(r, t). r_WebsiteID r = ''website_1'')
        [(result_at ''website_1'' ''up'' 120 1000, 1001),
         (result_at ''website_2'' ''up'' 80 2000, 2001),
         (result_at ''website_1'' ''down'' 0 3000, 3001)]
      = [(result_at ''website_1'' ''up'' 120 1000, 1001),
         (result_at ''website_1'' ''down'' 0 3000, 3001)]"
    by (simp add: result_at_def)
  have ne: "filter (\<lambda>(r, t). r_WebsiteID r = ''website_1'')
        [(result_at ''website_1'' ''up'' 120 1000, 1001),
         (result_at ''website_2'' ''up'' 80 2000, 2001),
         (result_at ''website_1'' ''down'' 0 3000, 3001)] \<noteq> []"
    unfolding f by simp
  show ?thesis
    using processResults_last_outcome [OF engine1_site1 ne]
    unfolding f by (simp add: result_at_def)
qed

section \<open>Properties of the storage\<close>

lemma SaveHistory_ok:
  "SaveHistory s wid entry IO_ok =
     (s\<lparr>historyFiles := (historyFiles s)(wid := HistoryJSON
          (drop (length (existing_history s wid @ [entry]) - 1000)
             (existing_history s wid @ [entry])))\<rparr>, None)"
  by (simp add: SaveHistory_def Let_def)

lemma SaveHistory_error:
  "io \<noteq> IO_ok \<Longrightarrow> fst (SaveHistory s wid entry io) = s \<and> snd (SaveHistory s wid entry io) \<noteq> None"
  by (cases io) (simp_all add: SaveHistory_def Let_def)

lemma SaveHistory_success:
  assumes "SaveHistory s wid entry io = (s', None)"
  shows "\<exists>h. historyFiles s' wid = HistoryJSON h
     \<and> length h \<le> 1000
     \<and> h = drop (length (existing_history s wid @ [entry]) - 1000)
              (existing_history s wid @ [entry])
     \<and> (length (existing_history s wid) < 1000 \<longrightarrow> h = existing_history s wid @ [entry])
     \<and> (length (existing_history s wid) \<ge> 1000 \<longrightarrow>
          length h = 1000 \<and>
          h = drop (length (existing_history s wid) - 999) (existing_history s wid) @ [entry])
     \<and> h \<noteq> [] \<and> last h = entry"
proof -
  have io: "io = IO_ok"
    using assms SaveHistory_error [of io s wid entry] by (cases "io = IO_ok") auto
  let ?old = "existing_history s wid"
  let ?h = "drop (length (?old @ [entry]) - 1000) (?old @ [entry])"
  have s': "historyFiles s' wid = HistoryJSON ?h"
    using assms unfolding io SaveHistory_ok by auto
  have len: "length ?h \<le> 1000"
    by simp
  have short: "length ?old < 1000 \<longrightarrow> ?h = ?old @ [entry]"
    by simp
  have long: "length ?old \<ge> 1000 \<longrightarrow>
      length ?h = 1000 \<and> ?h = drop (length ?old - 999) ?old @ [entry]"
  proof
    assume a: "length ?old \<ge> 1000"
    then have e: "length (?old @ [entry]) - 1000 = length ?old - 999"
      by simp
    have "length ?old - 999 \<le> length ?old"
      by simp
    then have "drop (length ?old - 999) (?old @ [entry]) = drop (length ?old - 999) ?old @ [entry]"
      by simp
    with a e show "length ?h = 1000 \<and> ?h = drop (length ?old - 999) ?old @ [entry]"
      by simp
  qed
  have ne: "?h \<noteq> []"
    by simp
  have "last ?h = last (?old @ [entry])"
    using ne by (simp add: last_drop)
  then have lst: "last ?h = entry"
    by simp
  from s' len short long ne lst show ?thesis
    by blast
qed

text \<open>
  C9, as amended. A \<open>SaveHistory\<close> call whose marshal, write and rename steps all succeed
  returns no error and replaces the stored history of the website by the history read
  before the call with the new entry appended, cut down to its last 1000 entries: at most
  1000 entries, the oldest dropped first, the new entry last. A call in which one of the
  steps fails returns an error and leaves the storage as it was, so the new entry is not
  stored. Either way a stored history of at most 1000 entries stays so.
\<close>

theorem SaveHistory_keeps_last_1000:
  "(io = IO_ok \<longrightarrow>
      (\<exists>h. SaveHistory s wid entry io =
               (s\<lparr>historyFiles := (historyFiles s)(wid := HistoryJSON h)\<rparr>, None)
         \<and> length h \<le> 1000
         \<and> h = drop (length (existing_history s wid @ [entry]) - 1000)
                  (existing_history s wid @ [entry])
         \<and> (length (existing_history s wid) < 1000 \<longrightarrow> h = existing_history s wid @ [entry])
         \<and> (length (existing_history s wid) \<ge> 1000 \<longrightarrow>
              length h = 1000 \<and>
              h = drop (length (existing_history s wid) - 999) (existing_history s wid) @ [entry])
         \<and> h \<noteq> [] \<and> last h = entry))
   \<and> (io \<noteq> IO_ok \<longrightarrow>
        fst (SaveHistory s wid entry io) = s \<and> snd (SaveHistory s wid entry io) \<noteq> None)
   \<and> (length (existing_history s wid) \<le> 1000 \<longrightarrow>
        length (existing_history (fst (SaveHistory s wid entry io)) wid) \<le> 1000)"
proof (intro conjI impI)
  assume io: "io = IO_ok"
  let ?h = "drop (length (existing_history s wid @ [entry]) - 1000)
              (existing_history s wid @ [entry])"
  let ?s' = "s\<lparr>historyFiles := (historyFiles s)(wid := HistoryJSON ?h)\<rparr>"
  have r: "SaveHistory s wid entry io = (?s', None)"
    unfolding io by (rule SaveHistory_ok)
  from SaveHistory_success [OF r] obtain h where
    h: "historyFiles ?s' wid = HistoryJSON h"
      "length h \<le> 1000"
      "h = ?h"
      "length (existing_history s wid) < 1000 \<longrightarrow> h = existing_history s wid @ [entry]"
      "length (existing_history s wid) \<ge> 1000 \<longrightarrow>
         length h = 1000 \<and>
         h = drop (length (existing_history s wid) - 999) (existing_history s wid) @ [entry]"
      "h \<noteq> []" "last h = entry"
    by blast
  from r h(3) have "SaveHistory s wid entry io =
      (s\<lparr>historyFiles := (historyFiles s)(wid := HistoryJSON h)\<rparr>, None)"
    by simp
  with h show "\<exists>h. SaveHistory s wid entry io =
               (s\<lparr>historyFiles := (historyFiles s)(wid := HistoryJSON h)\<rparr>, None)
         \<and> length h \<le> 1000
         \<and> h = drop (length (existing_history s wid @ [entry]) - 1000)
                  (existing_history s wid @ [entry])
         \<and> (length (existing_history s wid) < 1000 \<longrightarrow> h = existing_history s wid @ [entry])
         \<and> (length (existing_history s wid) \<ge> 1000 \<longrightarrow>
              length h = 1000 \<and>
              h = drop (length (existing_history s wid) - 999) (existing_history s wid) @ [entry])
         \<and> h \<noteq> [] \<and> last h = entry"
    by blast
next
  assume "io \<noteq> IO_ok"
  then show "fst (SaveHistory s wid entry io) = s"
    by (simp add: SaveHistory_error)
next
  assume "io \<noteq> IO_ok"
  then show "snd (SaveHistory s wid entry io) \<noteq> None"
    by (simp add: SaveHistory_error)
next
  assume a: "length (existing_history s wid) \<le> 1000"
  show "length (existing_history (fst (SaveHistory s wid entry io)) wid) \<le> 1000"
  proof (cases "io = IO_ok")
    case True
    then show ?thesis
      by (simp add: SaveHistory_ok existing_history_def)
  next
    case False
    then show ?thesis
      using a by (simp add: SaveHistory_error)
  qed
qed

text \<open>
  The claim as stated fails when the write fails: the call on an empty data directory
  returns the error, no history file exists afterwards, and the stored history is still
  empty, so the new entry has not been appended.
\<close>

theorem SaveHistory_keeps_last_1000_counterexample:
  "snd (SaveHistory storage0 ''website_1'' (sample ''up'') WriteFile_fails)
     = Some (Err ''failed to write history file'')
   \<and> historyFiles (fst (SaveHistory storage0 ''website_1'' (sample ''up'') WriteFile_fails))
       ''website_1'' = NoHistoryFile
   \<and> existing_history (fst (SaveHistory storage0 ''website_1'' (sample ''up'') WriteFile_fails))
       ''website_1'' = []"
  by (simp add: SaveHistory_def Let_def storage0_def existing_history_def)

theorem SaveHistory_keeps_last_1000_witness:
  "SaveHistory storage0 ''website_1'' (sample ''up'') IO_ok
     = (storage0\<lparr>historyFiles :=
          (historyFiles storage0)(''website_1'' := HistoryJSON [sample ''up''])\<rparr>, None)
   \<and> SaveHistory full_storage ''website_1'' (sample ''up'') IO_ok
     = (full_storage\<lparr>historyFiles :=
          (historyFiles full_storage)(''website_1'' :=
             HistoryJSON (replicate 999 (sample ''down'') @ [sample ''up'']))\<rparr>, None)
   \<and> fst (SaveHistory full_storage ''website_1'' (sample ''up'') WriteFile_fails) = full_storage
   \<and> snd (SaveHistory full_storage ''website_1'' (sample ''up'') WriteFile_fails) \<noteq> None"
proof -
  have e0: "existing_history storage0 ''website_1'' = []"
    by (simp add: existing_history_def storage0_def)
  have e1: "existing_history full_storage ''website_1'' = replicate 1000 (sample ''down'')"
    by (simp add: existing_history_def full_storage_def storage0_def)
  have "SaveHistory storage0 ''website_1'' (sample ''up'') IO_ok
     = (storage0\<lparr>historyFiles :=
          (historyFiles storage0)(''website_1'' := HistoryJSON [sample ''up''])\<rparr>, None)"
    using SaveHistory_keeps_last_1000 [of IO_ok storage0 "''website_1''" "sample ''up''"] e0
    by auto
  moreover have "SaveHistory full_storage ''website_1'' (sample ''up'') IO_ok
     = (full_storage\<lparr>historyFiles :=
          (historyFiles full_storage)(''website_1'' :=
             HistoryJSON (replicate 999 (sample ''down'') @ [sample ''up'']))\<rparr>, None)"
    using SaveHistory_keeps_last_1000 [of IO_ok full_storage "''website_1''" "sample ''up''"] e1
    by auto
  moreover have "fst (SaveHistory full_storage ''website_1'' (sample ''up'') WriteFile_fails) = full_storage
     \<and> snd (SaveHistory full_storage ''website_1'' (sample ''up'') WriteFile_fails) \<noteq> None"
    using SaveHistory_keeps_last_1000 [of WriteFile_fails full_storage "''website_1''" "sample ''up''"]
    by simp
  ultimately show ?thesis by blast
qed

lemma count_up_fold:
  "fold (\<lambda>entry upCount. if h_Status entry = ''up'' then upCount + 1 else upCount) history n
     = n + int (length (filter (\<lambda>entry. h_Status entry = ''up'') history))"
  by (induction history arbitrary: n) simp_all

lemma count_up_filter:
  "count_up history = int (length (filter (\<lambda>entry. h_Status entry = ''up'') history))"
  by (simp add: count_up_def count_up_fold)

lemma float64_7_of_10:
  "float64_mul (float64_div (float64_of_int 7) (float64_of_int 10)) 100 = 70"
  by code_simp

lemma hours_ago_in_range:
  assumes "0 \<le> hours" and "hours \<le> 2562047"
  shows "hours_ago hours = - (hours * 3600000000000)"
proof -
  have w: "- (word_of_int hours :: 64 word) * Hour = word_of_int (- (hours * 3600000000000))"
    by (simp add: Hour_def)
  have lo: "- (2 ^ 63) \<le> - (hours * 3600000000000)"
    using assms by simp
  have hi: "- (hours * 3600000000000) < 2 ^ 63"
    using assms by simp
  show ?thesis
    unfolding hours_ago_def w sint_sbintrunc'
    using signed_take_bit_int_eq_self [of 63 "- (hours * 3600000000000)"] lo hi
    by simp
qed

lemma GetRecentHistory_stored:
  "historyFiles s wid = HistoryJSON h \<Longrightarrow>
   GetRecentHistory s wid hours now =
     Inr (filter (\<lambda>entry. h_Timestamp entry > now + hours_ago hours) h)"
  by (simp add: GetRecentHistory_def LoadHistory_def)

lemma CalculateUptime_of_window:
  assumes "GetRecentHistory s wid hours now = Inr window"
  shows "CalculateUptime s wid hours now =
           ((if window = [] then 100
             else float64_mul
                    (float64_div
                       (float64_of_int (int (length (filter (\<lambda>entry. h_Status entry = ''up'') window))))
                       (float64_of_int (int (length window))))
                    100), None)"
  by (simp add: CalculateUptime_def assms count_up_filter)

text \<open>
  C7. The samples of the window are the entries of the stored history whose timestamp is
  after the cutoff, the time of the call minus the window; for a window of 0 to 2562047
  hours the cutoff is that many hours before the call (beyond that the \<open>int64\<close> product
  wraps around). \<open>CalculateUptime\<close> returns 100 and no error when no stored entry is in
  the window (the history file is absent, empty, or holds only older entries), and
  otherwise the \<open>float64\<close> quotient of the number of entries of the window with status
  "up" by the number of entries of the window, times 100 in \<open>float64\<close>. For a window
  of 10 samples of which 7 are "up" this is exactly 70. When the history file cannot be read
  or decoded the function returns 0 and the error.
\<close>

theorem CalculateUptime_percentage:
  "(historyFiles s wid = HistoryJSON h \<or> (historyFiles s wid = NoHistoryFile \<and> h = []) \<longrightarrow>
      CalculateUptime s wid hours now =
        ((if filter (\<lambda>entry. h_Timestamp entry > now + hours_ago hours) h = [] then 100
          else float64_mul
                 (float64_div
                    (float64_of_int (int (length
                       (filter (\<lambda>entry. h_Status entry = ''up'')
                          (filter (\<lambda>entry. h_Timestamp entry > now + hours_ago hours) h)))))
                    (float64_of_int (int (length
                       (filter (\<lambda>entry. h_Timestamp entry > now + hours_ago hours) h)))))
                 100), None)
      \<and> (length (filter (\<lambda>entry. h_Timestamp entry > now + hours_ago hours) h) = 10
           \<and> length (filter (\<lambda>entry. h_Status entry = ''up'')
                        (filter (\<lambda>entry. h_Timestamp entry > now + hours_ago hours) h)) = 7
            \<longrightarrow> CalculateUptime s wid hours now = (70, None)))
   \<and> (0 \<le> hours \<and> hours \<le> 2562047 \<longrightarrow> now + hours_ago hours = now - hours * 3600000000000)
   \<and> (historyFiles s wid = UnreadableHistory \<longrightarrow>
        CalculateUptime s wid hours now = (0, Some (Err ''failed to read history file'')))
   \<and> (historyFiles s wid = RejectedHistory partial \<longrightarrow>
        CalculateUptime s wid hours now = (0, Some (Err ''failed to unmarshal history'')))"
proof (intro conjI impI)
  let ?window = "filter (\<lambda>entry. h_Timestamp entry > now + hours_ago hours) h"
  assume a: "historyFiles s wid = HistoryJSON h \<or> (historyFiles s wid = NoHistoryFile \<and> h = [])"
  have g: "GetRecentHistory s wid hours now = Inr ?window"
    using a by (auto simp add: GetRecentHistory_def LoadHistory_def)
  show v: "CalculateUptime s wid hours now =
        ((if ?window = [] then 100
          else float64_mul
                 (float64_div
                    (float64_of_int (int (length (filter (\<lambda>entry. h_Status entry = ''up'') ?window))))
                    (float64_of_int (int (length ?window))))
                 100), None)"
    by (rule CalculateUptime_of_window [OF g])
  assume n: "length ?window = 10
           \<and> length (filter (\<lambda>entry. h_Status entry = ''up'') ?window) = 7"
  then have "?window \<noteq> []" by auto
  with v n show "CalculateUptime s wid hours now = (70, None)"
    by (simp add: float64_7_of_10)
next
  assume "0 \<le> hours \<and> hours \<le> 2562047"
  then show "now + hours_ago hours = now - hours * 3600000000000"
    by (simp add: hours_ago_in_range)
next
  assume "historyFiles s wid = UnreadableHistory"
  then show "CalculateUptime s wid hours now = (0, Some (Err ''failed to read history file''))"
    by (simp add: CalculateUptime_def GetRecentHistory_def LoadHistory_def)
next
  assume "historyFiles s wid = RejectedHistory partial"
  then show "CalculateUptime s wid hours now = (0, Some (Err ''failed to unmarshal history''))"
    by (simp add: CalculateUptime_def GetRecentHistory_def LoadHistory_def)
qed

lemma hours_ago_24: "hours_ago 24 = - 86400000000000"
  by (simp add: hours_ago_in_range)

theorem CalculateUptime_percentage_witness:
  "CalculateUptime storage_old_and_recent ''website_1'' 24 2000 = (70, None)
   \<and> CalculateUptime storage_only_old ''website_1'' 24 2000 = (100, None)
   \<and> CalculateUptime storage0 ''website_1'' 24 2000 = (100, None)
   \<and> 2000 + hours_ago 24 = - 86399999998000"
proof -
  let ?h = "replicate 5 (old_sample ''up'') @ replicate 7 (sample ''up'') @ replicate 3 (sample ''down'')"
  let ?window = "filter (\<lambda>entry. h_Timestamp entry > 2000 + hours_ago 24) ?h"
  have f: "historyFiles storage_old_and_recent ''website_1'' = HistoryJSON ?h"
    by (simp add: storage_old_and_recent_def storage0_def)
  have w: "?window = replicate 7 (sample ''up'') @ replicate 3 (sample ''down'')"
    unfolding hours_ago_24 by (simp add: sample_def old_sample_def)
  have n: "length ?window = 10 \<and> length (filter (\<lambda>entry. h_Status entry = ''up'') ?window) = 7"
    unfolding w by (simp add: sample_def)
  have 1: "CalculateUptime storage_old_and_recent ''website_1'' 24 2000 = (70, None)"
    using CalculateUptime_percentage [of storage_old_and_recent "''website_1''" ?h 24 2000] f n
    by blast
  let ?o = "replicate 5 (old_sample ''down'')"
  have fo: "historyFiles storage_only_old ''website_1'' = HistoryJSON ?o"
    by (simp add: storage_only_old_def storage0_def)
  have wo: "filter (\<lambda>entry. h_Timestamp entry > 2000 + hours_ago 24) ?o = []"
    unfolding hours_ago_24 by (simp add: old_sample_def)
  have 2: "CalculateUptime storage_only_old ''website_1'' 24 2000 = (100, None)"
    using CalculateUptime_percentage [of storage_only_old "''website_1''" ?o 24 2000] fo wo
    by simp
  have f0: "historyFiles storage0 ''website_1'' = NoHistoryFile"
    by (simp add: storage0_def)
  have 3: "CalculateUptime storage0 ''website_1'' 24 2000 = (100, None)"
    using CalculateUptime_percentage [of storage0 "''website_1''" "[]" 24 2000] f0
    by simp
  have 4: "2000 + hours_ago 24 = - 86399999998000"
    using CalculateUptime_percentage [of storage0 "''website_1''" "[]" 24 2000]
    by simp
  from 1 2 3 4 show ?thesis by blast
qed

lemma websites_by_ID_all_decoded:
  "websites_by_ID m (map Some ws) = Returns (fold (\<lambda>w m. m(ID w \<mapsto> w)) ws m)"
  by (induction ws arbitrary: m) simp_all

lemma dom_fold_by_ID:
  "dom (fold (\<lambda>w m. m(ID w \<mapsto> w)) ws m) = dom m \<union> ID ` set ws"
  by (induction ws arbitrary: m) auto

lemma fold_by_ID_absent:
  "k \<notin> ID ` set ws \<Longrightarrow> fold (\<lambda>w m. m(ID w \<mapsto> w)) ws m k = m k"
  by (induction ws arbitrary: m) auto

lemma fold_by_ID_some_record:
  "w \<in> set ws \<Longrightarrow>
   \<exists>w' \<in> set ws. ID w' = ID w \<and> fold (\<lambda>w m. m(ID w \<mapsto> w)) ws m (ID w) = Some w'"
proof (induction ws arbitrary: m w)
  case Nil
  then show ?case by simp
next
  case (Cons x ws)
  show ?case
  proof (cases "ID w \<in> ID ` set ws")
    case True
    then obtain v where v: "v \<in> set ws" "ID v = ID w" by auto
    from Cons.IH [OF v(1), of "m(ID x \<mapsto> x)"] v(2) show ?thesis
      by auto
  next
    case False
    with Cons.prems have wx: "w = x" by auto
    have "fold (\<lambda>w m. m(ID w \<mapsto> w)) ws (m(ID x \<mapsto> x)) (ID w) = (m(ID x \<mapsto> x)) (ID w)"
      by (rule fold_by_ID_absent [OF False])
    then show ?thesis
      using wx by (simp add: fun_upd_same del: fun_upd_apply)
  qed
qed

lemma fold_by_ID_distinct:
  "distinct (map ID ws) \<Longrightarrow> w \<in> set ws \<Longrightarrow>
   fold (\<lambda>w m. m(ID w \<mapsto> w)) ws m (ID w) = Some w"
proof (induction ws arbitrary: m)
  case Nil
  then show ?case by simp
next
  case (Cons x ws)
  show ?case
  proof (cases "w = x")
    case True
    from Cons.prems(1) have "ID x \<notin> ID ` set ws" by simp
    then have "fold (\<lambda>w m. m(ID w \<mapsto> w)) ws (m(ID x \<mapsto> x)) (ID x) = (m(ID x \<mapsto> x)) (ID x)"
      by (rule fold_by_ID_absent)
    then show ?thesis
      using True by (simp add: fun_upd_same del: fun_upd_apply)
  next
    case False
    with Cons.prems have "w \<in> set ws" "distinct (map ID ws)" by auto
    then show ?thesis
      using Cons.IH by simp
  qed
qed

lemma Unmarshal_all_objects:
  "Unmarshal_websiteList (map JSON_website ws) = Inr (map Some ws)"
  by (simp add: Unmarshal_websiteList_def list_ex_iff is_mistyped_def decoded_elem_def comp_def)

lemma LoadWebsites_all_objects:
  "websitesFile s = WebsitesArray (map JSON_website ws) \<Longrightarrow>
   LoadWebsites s = Returns (Inr (fold (\<lambda>w m. m(ID w \<mapsto> w)) ws Map.empty))"
  by (simp add: LoadWebsites_def Unmarshal_all_objects websites_by_ID_all_decoded)

lemma LoadWebsites_mistyped:
  "websitesFile s = WebsitesArray es \<Longrightarrow> list_ex is_mistyped es \<Longrightarrow>
   LoadWebsites s = Returns (Inl (Err ''failed to unmarshal websites''))"
  by (simp add: LoadWebsites_def Unmarshal_websiteList_def)

lemma LoadWebsites_null_element:
  "websitesFile s = WebsitesArray (map JSON_website ws @ JSON_null # es) \<Longrightarrow>
   \<not> list_ex is_mistyped es \<Longrightarrow>
   LoadWebsites s = Panics ''nil pointer dereference''"
proof -
  assume f: "websitesFile s = WebsitesArray (map JSON_website ws @ JSON_null # es)"
    and n: "\<not> list_ex is_mistyped es"
  have m: "\<not> list_ex is_mistyped (map JSON_website ws @ JSON_null # es)"
    using n by (auto simp add: list_ex_iff is_mistyped_def)
  have d: "map decoded_elem (map JSON_website ws @ JSON_null # es)
      = map Some ws @ None # map decoded_elem es"
    by (simp add: decoded_elem_def comp_def)
  have p: "websites_by_ID m (map Some ws @ None # rest) = Panics ''nil pointer dereference''"
    for m rest
    by (induction ws arbitrary: m) simp_all
  have u: "Unmarshal_websiteList (map JSON_website ws @ JSON_null # es)
      = Inr (map Some ws @ None # map decoded_elem es)"
    unfolding Unmarshal_websiteList_def by (simp only: m d if_False)
  show ?thesis
    by (simp add: LoadWebsites_def f u p)
qed

text \<open>
  C8, as amended. No record is skipped on load. When a record of the stored array has a
  field of the wrong JSON type, \<open>LoadWebsites\<close> returns an error for the whole set and
  no website at all. When every record of the array is a JSON object whose fields have the
  right types, the load returns a map that holds exactly the IDs of the records, each ID
  mapped to a record of the file with that ID, and to the record itself when the IDs are
  distinct. (An array with a \<open>null\<close> element and no mistyped record is in neither case:
  \<open>LoadWebsites_null_element\<close> shows the nil pointer dereference there.)
\<close>

theorem LoadWebsites_all_or_nothing:
  "(websitesFile s = WebsitesArray es \<and> list_ex is_mistyped es \<longrightarrow>
      LoadWebsites s = Returns (Inl (Err ''failed to unmarshal websites'')))
   \<and> (websitesFile s = WebsitesArray (map JSON_website ws) \<longrightarrow>
      (\<exists>m. LoadWebsites s = Returns (Inr m)
         \<and> dom m = ID ` set ws
         \<and> (\<forall>w \<in> set ws. \<exists>w' \<in> set ws. ID w' = ID w \<and> m (ID w) = Some w')
         \<and> (distinct (map ID ws) \<longrightarrow> (\<forall>w \<in> set ws. m (ID w) = Some w))))"
proof (intro conjI impI)
  assume "websitesFile s = WebsitesArray es \<and> list_ex is_mistyped es"
  then show "LoadWebsites s = Returns (Inl (Err ''failed to unmarshal websites''))"
    by (simp add: LoadWebsites_mistyped)
next
  assume a: "websitesFile s = WebsitesArray (map JSON_website ws)"
  let ?m = "fold (\<lambda>w m. m(ID w \<mapsto> w)) ws Map.empty"
  have "LoadWebsites s = Returns (Inr ?m)"
    by (rule LoadWebsites_all_objects [OF a])
  moreover have "dom ?m = ID ` set ws"
    by (simp add: dom_fold_by_ID)
  moreover have "\<forall>w \<in> set ws. \<exists>w' \<in> set ws. ID w' = ID w \<and> ?m (ID w) = Some w'"
    using fold_by_ID_some_record by blast
  moreover have "distinct (map ID ws) \<longrightarrow> (\<forall>w \<in> set ws. ?m (ID w) = Some w)"
    using fold_by_ID_distinct by blast
  ultimately show "\<exists>m. LoadWebsites s = Returns (Inr m)
         \<and> dom m = ID ` set ws
         \<and> (\<forall>w \<in> set ws. \<exists>w' \<in> set ws. ID w' = ID w \<and> m (ID w) = Some w')
         \<and> (distinct (map ID ws) \<longrightarrow> (\<forall>w \<in> set ws. m (ID w) = Some w))"
    by blast
qed

text \<open>
  The claim as stated fails on a file of two records of which the second is malformed:
  the load returns an error for the whole set, and the well-formed \<open>site1\<close> is not
  loaded.
\<close>

theorem LoadWebsites_all_or_nothing_counterexample:
  "LoadWebsites storage_one_bad = Returns (Inl (Err ''failed to unmarshal websites''))"
  by (simp add: LoadWebsites_def Unmarshal_websiteList_def storage_one_bad_def storage0_def
      is_mistyped_def)

theorem LoadWebsites_all_or_nothing_witness:
  "LoadWebsites storage_one_bad = Returns (Inl (Err ''failed to unmarshal websites''))
   \<and> (\<exists>m. LoadWebsites storage_two_good = Returns (Inr m)
        \<and> dom m = {''website_1'', ''website_2''}
        \<and> m ''website_1'' = Some site1 \<and> m ''website_2'' = Some site2)"
proof -
  have b: "websitesFile storage_one_bad =
      WebsitesArray [JSON_website site1, JSON_mistyped (site2\<lparr>IntervalSeconds := 0\<rparr>)]
    \<and> list_ex is_mistyped [JSON_website site1, JSON_mistyped (site2\<lparr>IntervalSeconds := 0\<rparr>)]"
    by (simp add: storage_one_bad_def storage0_def is_mistyped_def)
  have g: "websitesFile storage_two_good = WebsitesArray (map JSON_website [site1, site2])"
    by (simp add: storage_two_good_def storage0_def)
  have i: "ID site1 = ''website_1''" "ID site2 = ''website_2''"
    by (simp_all add: site1_def site2_def)
  have d: "distinct (map ID [site1, site2])"
    by (simp add: i)
  have "LoadWebsites storage_one_bad = Returns (Inl (Err ''failed to unmarshal websites''))"
    using LoadWebsites_all_or_nothing [where s = storage_one_bad
        and es = "[JSON_website site1, JSON_mistyped (site2\<lparr>IntervalSeconds := 0\<rparr>)]"] b
    by blast
  moreover have "\<exists>m. LoadWebsites storage_two_good = Returns (Inr m)
        \<and> dom m = {''website_1'', ''website_2''}
        \<and> m ''website_1'' = Some site1 \<and> m ''website_2'' = Some site2"
    using LoadWebsites_all_or_nothing [where s = storage_two_good and ws = "[site1, site2]"] g d
    by (auto simp add: i)
  ultimately show ?thesis by blast
qed

section \<open>Properties of the notification manager\<close>

lemma time_Since_less_5_minutes:
  "time_Since now t < 5 * Minute \<longleftrightarrow> now - t < 5 * Minute"
  by (auto simp add: time_Since_def time_Sub_def Minute_def Let_def)

lemma SendStatusChange_Throttled:
  "recently_notified nm (e_WebsiteID event) now1 \<Longrightarrow>
   SendStatusChange nm event now1 now2 = (nm, Throttled)"
  by (simp add: SendStatusChange_def)

lemma SendStatusChange_Enqueued:
  "\<not> recently_notified nm (e_WebsiteID event) now1 \<Longrightarrow>
   length (eventQueue nm) < eventQueue_cap \<Longrightarrow>
   SendStatusChange nm event now1 now2 =
     (nm\<lparr>eventQueue := eventQueue nm @ [event],
         lastNotified := (lastNotified nm)(e_WebsiteID event \<mapsto> now2)\<rparr>, Enqueued)"
  by (simp add: SendStatusChange_def)

lemma SendStatusChange_QueueFull:
  "\<not> recently_notified nm (e_WebsiteID event) now1 \<Longrightarrow>
   \<not> length (eventQueue nm) < eventQueue_cap \<Longrightarrow>
   SendStatusChange nm event now1 now2 = (nm, QueueFull)"
  by (simp add: SendStatusChange_def)

lemma Enqueued_records_time:
  assumes "SendStatusChange nm event now1 now2 = (nm1, Enqueued)"
  shows "lastNotified nm1 (e_WebsiteID event) = Some now2"
  using assms by (auto simp add: SendStatusChange_def split: if_splits)

lemma second_event_throttled:
  assumes first: "SendStatusChange nm event now1 now2 = (nm1, Enqueued)"
    and same: "e_WebsiteID event' = e_WebsiteID event"
    and clock: "now1 \<le> now2"
    and apart: "now1' - now1 < 5 * Minute"
  shows "SendStatusChange (nm1\<lparr>eventQueue := q\<rparr>) event' now1' now2' = (nm1\<lparr>eventQueue := q\<rparr>, Throttled)"
proof -
  have "lastNotified (nm1\<lparr>eventQueue := q\<rparr>) (e_WebsiteID event') = Some now2"
    using Enqueued_records_time [OF first] same by simp
  moreover have "now1' - now2 < 5 * Minute"
    using clock apart by simp
  ultimately have "recently_notified (nm1\<lparr>eventQueue := q\<rparr>) (e_WebsiteID event') now1'"
    by (simp add: recently_notified_def time_Since_less_5_minutes)
  then show ?thesis
    by (rule SendStatusChange_Throttled)
qed

text \<open>
  C2, as amended. An event for a website with a notification recorded less than five
  minutes before is dropped and the manager is unchanged, throttle timestamp included.
  Otherwise the event is enqueued when the queue has room, and the timestamp of the website
  is set to the current time; when the queue is full the event is dropped with the warning
  and the manager is unchanged. Of two events for the same website submitted less than five
  minutes apart, whatever the consumer took from the queue in between, the second is
  throttled when the first was enqueued; so at most one of the two is enqueued, and exactly
  one when the first is.
\<close>

theorem SendStatusChange_throttling:
  "(recently_notified nm (e_WebsiteID event) now1 \<longrightarrow>
      SendStatusChange nm event now1 now2 = (nm, Throttled))
   \<and> (\<not> recently_notified nm (e_WebsiteID event) now1 \<and> length (eventQueue nm) < eventQueue_cap \<longrightarrow>
      SendStatusChange nm event now1 now2 =
        (nm\<lparr>eventQueue := eventQueue nm @ [event],
            lastNotified := (lastNotified nm)(e_WebsiteID event \<mapsto> now2)\<rparr>, Enqueued))
   \<and> (\<not> recently_notified nm (e_WebsiteID event) now1 \<and> length (eventQueue nm) \<ge> eventQueue_cap \<longrightarrow>
      SendStatusChange nm event now1 now2 = (nm, QueueFull))
   \<and> (e_WebsiteID event' = e_WebsiteID event \<and> now1 \<le> now2 \<and> now1' - now1 < 5 * Minute \<longrightarrow>
      (snd (SendStatusChange nm event now1 now2) = Enqueued \<longrightarrow>
         SendStatusChange ((fst (SendStatusChange nm event now1 now2))\<lparr>eventQueue := q\<rparr>)
             event' now1' now2'
           = ((fst (SendStatusChange nm event now1 now2))\<lparr>eventQueue := q\<rparr>, Throttled))
      \<and> \<not> (snd (SendStatusChange nm event now1 now2) = Enqueued \<and>
             snd (SendStatusChange ((fst (SendStatusChange nm event now1 now2))\<lparr>eventQueue := q\<rparr>)
                   event' now1' now2') = Enqueued))"
proof -
  have two: "SendStatusChange ((fst (SendStatusChange nm event now1 now2))\<lparr>eventQueue := q\<rparr>)
             event' now1' now2'
           = ((fst (SendStatusChange nm event now1 now2))\<lparr>eventQueue := q\<rparr>, Throttled)"
    if "e_WebsiteID event' = e_WebsiteID event" "now1 \<le> now2" "now1' - now1 < 5 * Minute"
      "snd (SendStatusChange nm event now1 now2) = Enqueued"
  proof -
    from that(4) have "SendStatusChange nm event now1 now2 =
        (fst (SendStatusChange nm event now1 now2), Enqueued)"
      by (metis prod.collapse)
    from second_event_throttled [OF this that(1) that(2) that(3)] show ?thesis .
  qed
  have not_both: "\<not> (snd (SendStatusChange nm event now1 now2) = Enqueued \<and>
             snd (SendStatusChange ((fst (SendStatusChange nm event now1 now2))\<lparr>eventQueue := q\<rparr>)
                   event' now1' now2') = Enqueued)"
    if "e_WebsiteID event' = e_WebsiteID event" "now1 \<le> now2" "now1' - now1 < 5 * Minute"
    using two [OF that] by auto
  show ?thesis
    using SendStatusChange_Throttled [of nm event now1 now2]
      SendStatusChange_Enqueued [of nm event now1 now2]
      SendStatusChange_QueueFull [of nm event now1 now2]
      two not_both
    by (simp add: not_less)
qed

text \<open>
  The claim as stated fails when the first of the two events is itself throttled: a
  notification for \<open>website_1\<close> was recorded at time 0, and two events for it are
  submitted one minute and two minutes later. They are one minute apart and both are
  throttled: no delivery is attempted for either, not exactly one.
\<close>

theorem SendStatusChange_throttling_counterexample:
  "snd (SendStatusChange nm_notified event1 Minute Minute) = Throttled
   \<and> snd (SendStatusChange (fst (SendStatusChange nm_notified event1 Minute Minute))
          event1 (2 * Minute) (2 * Minute)) = Throttled"
proof -
  have r: "recently_notified nm_notified (e_WebsiteID event1) Minute"
    "recently_notified nm_notified (e_WebsiteID event1) (2 * Minute)"
    by (simp_all add: recently_notified_def nm_notified_def event1_def
        time_Since_def time_Sub_def Minute_def)
  show ?thesis
    by (simp add: SendStatusChange_Throttled [OF r(1)] SendStatusChange_Throttled [OF r(2)])
qed

theorem SendStatusChange_throttling_witness:
  "SendStatusChange nm_notified event1 Minute Minute = (nm_notified, Throttled)
   \<and> SendStatusChange (NewNotificationManager config0) event1 Minute Minute
       = ((NewNotificationManager config0)
            \<lparr>eventQueue := [event1], lastNotified := [''website_1'' \<mapsto> Minute]\<rparr>, Enqueued)
   \<and> SendStatusChange
         ((NewNotificationManager config0)\<lparr>eventQueue := replicate 100 event1\<rparr>)
         event1 Minute Minute
       = ((NewNotificationManager config0)\<lparr>eventQueue := replicate 100 event1\<rparr>, QueueFull)
   \<and> snd (SendStatusChange
         ((fst (SendStatusChange (NewNotificationManager config0) event1 Minute Minute))
            \<lparr>eventQueue := []\<rparr>)
         event1 (3 * Minute) (3 * Minute)) = Throttled"
proof -
  let ?nm = "NewNotificationManager config0"
  let ?full = "?nm\<lparr>eventQueue := replicate 100 event1\<rparr>"
  have i: "e_WebsiteID event1 = ''website_1''"
    by (simp add: event1_def)
  have r: "recently_notified nm_notified (e_WebsiteID event1) Minute"
    by (simp add: recently_notified_def nm_notified_def event1_def
        time_Since_def time_Sub_def Minute_def)
  have n: "\<not> recently_notified ?nm (e_WebsiteID event1) Minute"
    "\<not> recently_notified ?full (e_WebsiteID event1) Minute"
    by (simp_all add: recently_notified_def NewNotificationManager_def)
  have q: "length (eventQueue ?nm) < eventQueue_cap" "length (eventQueue ?full) \<ge> eventQueue_cap"
    "eventQueue ?nm = []" "lastNotified ?nm = Map.empty"
    by (simp_all add: NewNotificationManager_def eventQueue_cap_def)
  have t: "Minute \<le> Minute" "3 * Minute - Minute < 5 * Minute"
    by (simp_all add: Minute_def)
  have a: "SendStatusChange nm_notified event1 Minute Minute = (nm_notified, Throttled)"
    using SendStatusChange_throttling [of nm_notified event1 Minute Minute] r
    by blast
  have b: "SendStatusChange ?nm event1 Minute Minute
       = (?nm\<lparr>eventQueue := [event1], lastNotified := [''website_1'' \<mapsto> Minute]\<rparr>, Enqueued)"
    using SendStatusChange_throttling [of ?nm event1 Minute Minute] n(1) q(1)
    by (simp add: q(3) q(4) i)
  have c: "SendStatusChange ?full event1 Minute Minute = (?full, QueueFull)"
    using SendStatusChange_throttling [of ?full event1 Minute Minute] n(2) q(2)
    by blast
  have d: "snd (SendStatusChange
         ((fst (SendStatusChange ?nm event1 Minute Minute))\<lparr>eventQueue := []\<rparr>)
         event1 (3 * Minute) (3 * Minute)) = Throttled"
    using SendStatusChange_throttling [where nm = ?nm and event = event1 and event' = event1
        and ?now1.0 = Minute and ?now2.0 = Minute and now1' = "3 * Minute"
        and now2' = "3 * Minute" and q = "[]"] t b
    by simp
  from a b c d show ?thesis by blast
qed

section \<open>Properties of the aggregation loop\<close>

lemma handle_result_sent:
  "snd (handle_result ag inp) =
     (case previousStatus ag (r_WebsiteID (a_result inp)) of
        None \<Rightarrow> None
      | Some prevStatus \<Rightarrow>
          if prevStatus \<noteq> r_Status (a_result inp)
          then (case GetWebsite (a_engine inp) (r_WebsiteID (a_result inp)) of
                  None \<Rightarrow> None
                | Some website \<Rightarrow>
                    Some \<lparr> e_WebsiteID = r_WebsiteID (a_result inp),
                           e_WebsiteName = Name website,
                           e_WebsiteURL = URL website,
                           e_OldStatus = prevStatus,
                           e_NewStatus = r_Status (a_result inp),
                           e_ResponseTime = r_ResponseTime (a_result inp),
                           e_Timestamp = r_Timestamp (a_result inp),
                           e_Emails = NotificationEmails website,
                           e_SlackWebhook = SlackWebhook website \<rparr>)
          else None)"
  by (simp add: handle_result_def Let_def split: option.splits)

lemma handle_result_previousStatus:
  "previousStatus (fst (handle_result ag inp)) =
     (previousStatus ag)(r_WebsiteID (a_result inp) \<mapsto> r_Status (a_result inp))"
  by (simp add: handle_result_def Let_def split: option.splits)

lemma aggregate_snoc:
  "aggregate ag (pre @ [inp]) =
     (fst (handle_result (fst (aggregate ag pre)) inp),
      snd (aggregate ag pre) @ [snd (handle_result (fst (aggregate ag pre)) inp)])"
  by (induction pre arbitrary: ag) (simp_all add: split_beta Let_def)

lemma aggregate_unseen:
  "wid \<notin> set (map (\<lambda>inp. r_WebsiteID (a_result inp)) pre) \<Longrightarrow>
   previousStatus (fst (aggregate ag pre)) wid = previousStatus ag wid"
  by (induction pre arbitrary: ag)
    (simp_all add: split_beta Let_def handle_result_previousStatus)

lemma aggregate_length: "length (snd (aggregate ag ins)) = length ins"
  by (induction ins arbitrary: ag) (simp_all add: split_beta Let_def)

text \<open>
  C1, as amended. One iteration hands an event to the notification manager if and only if
  a previous status is recorded for the result's website, it differs from the result's
  status, and the website is still in the registry. The event carries the recorded status
  as old status and the result's status as new status. After the iteration, whether an
  event was sent or not, the table records the result's status for the website. In a run
  from the empty table, a result for a website with no earlier result in the run produces
  no event.
\<close>

theorem transition_event_iff:
  "(snd (handle_result ag inp) \<noteq> None \<longleftrightarrow>
      (\<exists>prevStatus. previousStatus ag (r_WebsiteID (a_result inp)) = Some prevStatus
         \<and> prevStatus \<noteq> r_Status (a_result inp))
      \<and> GetWebsite (a_engine inp) (r_WebsiteID (a_result inp)) \<noteq> None)
   \<and> (\<forall>event. snd (handle_result ag inp) = Some event \<longrightarrow>
        e_WebsiteID event = r_WebsiteID (a_result inp)
        \<and> previousStatus ag (r_WebsiteID (a_result inp)) = Some (e_OldStatus event)
        \<and> e_NewStatus event = r_Status (a_result inp))
   \<and> previousStatus (fst (handle_result ag inp)) (r_WebsiteID (a_result inp))
        = Some (r_Status (a_result inp))
   \<and> (r_WebsiteID (a_result inp) \<notin> set (map (\<lambda>inp. r_WebsiteID (a_result inp)) pre) \<longrightarrow>
        snd (aggregate (new_aggregator nm s) (pre @ [inp]))
          = snd (aggregate (new_aggregator nm s) pre) @ [None])"
proof (intro conjI)
  show "snd (handle_result ag inp) \<noteq> None \<longleftrightarrow>
      (\<exists>prevStatus. previousStatus ag (r_WebsiteID (a_result inp)) = Some prevStatus
         \<and> prevStatus \<noteq> r_Status (a_result inp))
      \<and> GetWebsite (a_engine inp) (r_WebsiteID (a_result inp)) \<noteq> None"
    by (auto simp add: handle_result_sent split: option.splits)
next
  show "\<forall>event. snd (handle_result ag inp) = Some event \<longrightarrow>
        e_WebsiteID event = r_WebsiteID (a_result inp)
        \<and> previousStatus ag (r_WebsiteID (a_result inp)) = Some (e_OldStatus event)
        \<and> e_NewStatus event = r_Status (a_result inp)"
    by (auto simp add: handle_result_sent split: option.splits if_splits)
next
  show "previousStatus (fst (handle_result ag inp)) (r_WebsiteID (a_result inp))
        = Some (r_Status (a_result inp))"
    by (simp add: handle_result_previousStatus)
next
  show "r_WebsiteID (a_result inp) \<notin> set (map (\<lambda>inp. r_WebsiteID (a_result inp)) pre) \<longrightarrow>
        snd (aggregate (new_aggregator nm s) (pre @ [inp]))
          = snd (aggregate (new_aggregator nm s) pre) @ [None]"
  proof
    assume "r_WebsiteID (a_result inp) \<notin> set (map (\<lambda>inp. r_WebsiteID (a_result inp)) pre)"
    then have "previousStatus (fst (aggregate (new_aggregator nm s) pre)) (r_WebsiteID (a_result inp))
        = None"
      by (simp add: aggregate_unseen new_aggregator_def)
    then have "snd (handle_result (fst (aggregate (new_aggregator nm s) pre)) inp) = None"
      by (simp add: handle_result_sent)
    then show "snd (aggregate (new_aggregator nm s) (pre @ [inp]))
            = snd (aggregate (new_aggregator nm s) pre) @ [None]"
      by (simp add: aggregate_snoc)
  qed
qed

lemma after_up_previousStatus:
  "previousStatus after_up ''website_1'' = Some ''up''"
  by (simp add: after_up_def split_beta handle_result_previousStatus in_up_def input_at_def
      result_at_def)

lemma in_down_fields:
  "r_WebsiteID (a_result in_down) = ''website_1''" "r_Status (a_result in_down) = ''down''"
  "GetWebsite (a_engine in_down) ''website_1'' = Some site1"
  "r_WebsiteID (a_result in_down_removed) = ''website_1''"
  "r_Status (a_result in_down_removed) = ''down''"
  "GetWebsite (a_engine in_down_removed) ''website_1'' = None"
  by (simp_all add: in_down_def in_down_removed_def input_at_def result_at_def GetWebsite_def
      engine1_site1 RemoveWebsite_def)

text \<open>
  The claim as stated fails when the website has been removed: after the first result
  ("up") for \<open>website_1\<close> the table records "up"; the next result is "down", the
  recorded status exists and differs, and no event is produced, because the website is
  no longer in the registry.
\<close>

theorem transition_event_iff_counterexample:
  "previousStatus after_up (r_WebsiteID (a_result in_down_removed)) = Some ''up''
   \<and> r_Status (a_result in_down_removed) = ''down''
   \<and> snd (handle_result after_up in_down_removed) = None"
proof -
  have "snd (handle_result after_up in_down_removed) = None"
    by (simp only: handle_result_sent in_down_fields after_up_previousStatus) simp
  then show ?thesis
    by (simp add: in_down_fields after_up_previousStatus)
qed

theorem transition_event_iff_witness:
  "snd (handle_result after_up in_down) \<noteq> None
   \<and> snd (handle_result after_up in_down_removed) = None
   \<and> previousStatus (fst (handle_result after_up in_down)) ''website_1'' = Some ''down''
   \<and> snd (aggregate aggregator0 ([] @ [in_up])) = snd (aggregate aggregator0 []) @ [None]"
proof -
  have 1: "snd (handle_result after_up in_down) \<noteq> None"
    using transition_event_iff [of after_up in_down]
    by (simp add: in_down_fields after_up_previousStatus)
  have 2: "snd (handle_result after_up in_down_removed) = None"
    using transition_event_iff [of after_up in_down_removed]
    by (simp add: in_down_fields after_up_previousStatus)
  have 3: "previousStatus (fst (handle_result after_up in_down)) ''website_1'' = Some ''down''"
    using transition_event_iff [of after_up in_down]
    by (simp add: in_down_fields)
  have "r_WebsiteID (a_result in_up) \<notin> set (map (\<lambda>inp. r_WebsiteID (a_result inp)) [])"
    by simp
  then have 4: "snd (aggregate aggregator0 ([] @ [in_up])) = snd (aggregate aggregator0 []) @ [None]"
    using transition_event_iff [where inp = in_up and pre = "[]"
        and nm = "NewNotificationManager config0" and s = storage0]
    unfolding aggregator0_def by blast
  from 1 2 3 4 show ?thesis by blast
qed

section \<open>Properties of the two loops together\<close>

lemma handle_result_stor:
  "stor (fst (handle_result ag inp)) =
     fst (SaveHistory (stor ag) (r_WebsiteID (a_result inp))
            \<lparr> h_Timestamp = r_Timestamp (a_result inp),
              h_Status = r_Status (a_result inp),
              h_ResponseTime = r_ResponseTime (a_result inp) \<rparr>
            (a_io inp))"
  by (simp add: handle_result_def Let_def split: option.splits)

lemma engine_two_results_fields:
  "resultChan engine_two_results = [result_up, result_down]"
  "websites engine_two_results = websites engine1"
  by (simp_all add: engine_two_results_def send_result_def engine1_def Start_def AddWebsite_def
      NewMonitorEngine_def)

lemma received_by_processResults:
  "receive_result (engine_two_results, aggregator0) (received_by processResults_receives 1001)
     = (UpdateWebsiteStatus (engine_two_results\<lparr>resultChan := [result_down]\<rparr>)
          ''website_1'' ''up'' 120 1001, aggregator0)"
  by (simp add: receive_result_def engine_two_results_fields received_by_def Let_def
      result_up_def result_at_def)

lemma received_by_main:
  "receive_result
     (UpdateWebsiteStatus (engine_two_results\<lparr>resultChan := [result_down]\<rparr>)
        ''website_1'' ''up'' 120 1001, aggregator0)
     (received_by main_receives 2001)
   = ((UpdateWebsiteStatus (engine_two_results\<lparr>resultChan := [result_down]\<rparr>)
         ''website_1'' ''up'' 120 1001)\<lparr>resultChan := []\<rparr>,
      fst (handle_result aggregator0
             \<lparr> a_result = result_down, a_io = IO_ok,
               a_engine = (UpdateWebsiteStatus (engine_two_results\<lparr>resultChan := [result_down]\<rparr>)
                             ''website_1'' ''up'' 120 1001)\<lparr>resultChan := []\<rparr>,
               a_now1 = 2001, a_now2 = 2001 \<rparr>))"
  by (simp add: receive_result_def received_by_def Let_def UpdateWebsiteStatus_def
      split: option.splits)

text \<open>
  C4 at a failing input. The website \<open>site1\<close> is registered and stays so; two outcomes
  for it are on the channel, "up" with 120 ms and then "down" with 0 ms. The first is
  received by \<open>processResults\<close> and the second by the loop of \<open>main\<close>. Both are processed
  and the channel is empty: the second, most recent outcome is saved to the history and
  recorded as the previous status, but the registry record still holds the status "up" and
  the response time 120 of the first, because \<open>UpdateWebsiteStatus\<close> is only called by the
  loop that did not receive it.
\<close>

theorem registry_misses_outcome_received_by_main:
  "resultChan (fst (receive_result
       (receive_result (engine_two_results, aggregator0) (received_by processResults_receives 1001))
       (received_by main_receives 2001))) = []
   \<and> websites (fst (receive_result
       (receive_result (engine_two_results, aggregator0) (received_by processResults_receives 1001))
       (received_by main_receives 2001))) ''website_1''
     = Some (site1\<lparr>Status := ''up'', LastResponseTime := 120, LastCheckTime := 1001\<rparr>)
   \<and> previousStatus (snd (receive_result
       (receive_result (engine_two_results, aggregator0) (received_by processResults_receives 1001))
       (received_by main_receives 2001))) ''website_1''
     = Some ''down''
   \<and> historyFiles (stor (snd (receive_result
       (receive_result (engine_two_results, aggregator0) (received_by processResults_receives 1001))
       (received_by main_receives 2001)))) ''website_1''
     = HistoryJSON [\<lparr> h_Timestamp = 2000, h_Status = ''down'', h_ResponseTime = 0 \<rparr>]"
proof -
  let ?me = "UpdateWebsiteStatus (engine_two_results\<lparr>resultChan := [result_down]\<rparr>)
               ''website_1'' ''up'' 120 1001"
  let ?inp = "\<lparr> a_result = result_down, a_io = IO_ok, a_engine = ?me\<lparr>resultChan := []\<rparr>,
                a_now1 = 2001, a_now2 = 2001 \<rparr>"
  have r: "receive_result
       (receive_result (engine_two_results, aggregator0) (received_by processResults_receives 1001))
       (received_by main_receives 2001)
     = (?me\<lparr>resultChan := []\<rparr>, fst (handle_result aggregator0 ?inp))"
    by (simp only: received_by_processResults received_by_main)
  have w: "websites (engine_two_results\<lparr>resultChan := [result_down]\<rparr>) ''website_1'' = Some site1"
    by (simp add: engine_two_results_fields engine1_site1)
  have d: "r_WebsiteID result_down = ''website_1''" "r_Status result_down = ''down''"
    "r_Timestamp result_down = 2000" "r_ResponseTime result_down = 0"
    by (simp_all add: result_down_def result_at_def)
  have 1: "resultChan (?me\<lparr>resultChan := []\<rparr>) = []"
    by simp
  have 2: "websites (?me\<lparr>resultChan := []\<rparr>) ''website_1''
      = Some (site1\<lparr>Status := ''up'', LastResponseTime := 120, LastCheckTime := 1001\<rparr>)"
    using UpdateWebsiteStatus_same [OF w] by simp
  have 3: "previousStatus (fst (handle_result aggregator0 ?inp)) ''website_1'' = Some ''down''"
    by (simp add: handle_result_previousStatus d)
  have 4: "historyFiles (stor (fst (handle_result aggregator0 ?inp))) ''website_1''
      = HistoryJSON [\<lparr> h_Timestamp = 2000, h_Status = ''down'', h_ResponseTime = 0 \<rparr>]"
    by (simp add: handle_result_stor d SaveHistory_ok aggregator0_def new_aggregator_def
        storage0_def existing_history_def)
  show ?thesis
    unfolding r using 1 2 3 4 by simp
qed

end
